theory Spec2Isabelle
  imports Complex_Main "HOL-Library.Word" "HOL-Library.Code_Target_Numeral"
begin

section \<open>Movement packets and their wire form\<close>

text \<open>
  The struct \<open>Packet\<close> of StencilApp.cpp. The fixed-width fields are machine words of the
  declared width; \<open>name\<close> is a \<open>std::string\<close>.
\<close>

record Packet =
  packetType :: "8 word"
  playerId :: "16 word"
  movementState :: "8 word"
  direction :: "8 word"
  timestamp :: "32 word"
  name :: string

text \<open>
  The exceptions the standard conversions \<open>std::stoi\<close>, \<open>std::stoul\<close> and
  \<open>std::string::substr\<close> throw. The source never catches them.
\<close>

datatype parse_error = invalid_argument | out_of_range

subsection \<open>The C library predicates and conversions used by the codec\<close>

text \<open>\<open>isdigit\<close> and \<open>isspace\<close> on a byte in the C locale, and the value of a digit.\<close>

definition isdigit :: "char \<Rightarrow> bool" where
  "isdigit c = (48 \<le> (of_char c :: nat) \<and> (of_char c :: nat) \<le> 57)"

definition isspace :: "char \<Rightarrow> bool" where
  "isspace c = ((of_char c :: nat) = 32 \<or> (9 \<le> (of_char c :: nat) \<and> (of_char c :: nat) \<le> 13))"

definition digit_val :: "char \<Rightarrow> nat" where
  "digit_val c = of_char c - 48"

definition digit_char :: "nat \<Rightarrow> char" where
  "digit_char d = char_of (48 + d)"

text \<open>\<open>std::to_string\<close> on an unsigned value: base 10, no sign, no padding.\<close>

fun to_string :: "nat \<Rightarrow> string" where
  "to_string n = (if n < 10 then [digit_char n] else to_string (n div 10) @ [digit_char (n mod 10)])"

declare to_string.simps [simp del]

text \<open>The digit loop of \<open>strtol\<close>/\<open>strtoul\<close> in base 10, on a run of digits.\<close>

fun decimal :: "nat \<Rightarrow> string \<Rightarrow> nat" where
  "decimal acc [] = acc"
| "decimal acc (c # cs) = decimal (acc * 10 + digit_val c) cs"

text \<open>
  \<open>std::string::substr(pos, n)\<close>: throws \<open>std::out_of_range\<close> when \<open>pos\<close> is past
  the end, and is the empty string when \<open>pos\<close> is the length.
\<close>

definition substr :: "string \<Rightarrow> nat \<Rightarrow> nat \<Rightarrow> parse_error + string" where
  "substr s pos n = (if length s < pos then Inl out_of_range else Inr (take n (drop pos s)))"

text \<open>
  \<open>std::stoi(str)\<close>: \<open>strtol\<close> in base 10 (leading white space, an optional sign, then
  digits). No digit at all is \<open>std::invalid_argument\<close>; a value outside \<open>int\<close> is
  \<open>std::out_of_range\<close>.
\<close>

definition stoi :: "string \<Rightarrow> parse_error + int" where
  "stoi str =
     (let s = dropWhile isspace str;
          neg = (case s of [] \<Rightarrow> False | c # r \<Rightarrow> c = CHR ''-'');
          body = (case s of [] \<Rightarrow> [] | c # r \<Rightarrow> if c = CHR ''-'' \<or> c = CHR ''+'' then r else s);
          ds = takeWhile isdigit body;
          v = (if neg then - int (decimal 0 ds) else int (decimal 0 ds))
      in if ds = [] then Inl invalid_argument
         else if v < - (2 ^ 31) \<or> 2 ^ 31 - 1 < v then Inl out_of_range
         else Inr v)"

text \<open>
  \<open>std::stoul(str)\<close>: \<open>strtoul\<close> in base 10. The program is a Win32 application
  (\<open>WinMain\<close>, \<open>SOCKET\<close>, Direct3D 12), where \<open>unsigned long\<close> has 32 bits, so
  \<open>ULONG_MAX\<close> is \<open>2^32 - 1\<close>; a minus sign negates the value modulo \<open>2^32\<close>.
\<close>

definition ULONG_MAX :: nat where
  "ULONG_MAX = 2 ^ 32 - 1"

definition stoul :: "string \<Rightarrow> parse_error + nat" where
  "stoul str =
     (let s = dropWhile isspace str;
          neg = (case s of [] \<Rightarrow> False | c # r \<Rightarrow> c = CHR ''-'');
          body = (case s of [] \<Rightarrow> [] | c # r \<Rightarrow> if c = CHR ''-'' \<or> c = CHR ''+'' then r else s);
          ds = takeWhile isdigit body;
          m = decimal 0 ds
      in if ds = [] then Inl invalid_argument
         else if ULONG_MAX < m then Inl out_of_range
         else Inr (if neg then (2 ^ 32 - m) mod 2 ^ 32 else m))"

text \<open>
  \<open>std::string data(buf)\<close> for a \<open>const char*\<close>: the bytes up to the first NUL.
\<close>

definition c_str :: "string \<Rightarrow> string" where
  "c_str buf = takeWhile (\<lambda>c. c \<noteq> CHR 0x00) buf"

subsection \<open>ParsePacket\<close>

text \<open>\<open>std::stoi(data.substr(pos, 1))\<close>, the expression that reads each one-digit field.\<close>

definition stoi_substr :: "string \<Rightarrow> nat \<Rightarrow> parse_error + int" where
  "stoi_substr data pos = (case substr data pos 1 of Inl e \<Rightarrow> Inl e | Inr s \<Rightarrow> stoi s)"

text \<open>
  The loop \<open>while (nameStart < data.length() && std::isdigit(data[nameStart])) ++nameStart;\<close>
\<close>

function scan_digits :: "string \<Rightarrow> nat \<Rightarrow> nat" where
  "scan_digits data nameStart =
     (if nameStart < length data \<and> isdigit (data ! nameStart)
      then scan_digits data (Suc nameStart) else nameStart)"
  by pat_completeness auto
termination
  by (relation "measure (\<lambda>(data, nameStart). length data - nameStart)") auto

declare scan_digits.simps [simp del]

text \<open>
  \<open>StencilApp::ParsePacket(buf, packet)\<close>. The packet is an output parameter that the
  function assigns field by field, so an exception thrown half way leaves the earlier
  fields assigned: the result is \<open>Inr\<close> of the packet after a normal return, or \<open>Inl\<close> of
  the exception and the packet as it stands when the exception is thrown. The positions
  0, 1, 2, 3 are the successive values of \<open>pos++\<close>; the timestamp starts at 4.
\<close>

definition ParsePacket :: "string \<Rightarrow> Packet \<Rightarrow> (parse_error \<times> Packet) + Packet" where
  "ParsePacket buf packet =
     (let data = c_str buf in
      case stoi_substr data 0 of Inl e \<Rightarrow> Inl (e, packet) | Inr v0 \<Rightarrow>
      (let packet = packet\<lparr>packetType := of_int v0\<rparr> in
       case stoi_substr data 1 of Inl e \<Rightarrow> Inl (e, packet) | Inr v1 \<Rightarrow>
       (let packet = packet\<lparr>playerId := of_int v1\<rparr> in
        case stoi_substr data 2 of Inl e \<Rightarrow> Inl (e, packet) | Inr v2 \<Rightarrow>
        (let packet = packet\<lparr>movementState := of_int v2\<rparr> in
         case stoi_substr data 3 of Inl e \<Rightarrow> Inl (e, packet) | Inr v3 \<Rightarrow>
         (let packet = packet\<lparr>direction := of_int v3\<rparr>;
              nameStart = scan_digits data 4 in
          case substr data 4 (nameStart - 4) of Inl e \<Rightarrow> Inl (e, packet) | Inr ts \<Rightarrow>
          (case stoul ts of Inl e \<Rightarrow> Inl (e, packet)
           | Inr v \<Rightarrow> Inr (packet\<lparr>timestamp := of_nat v\<rparr>)))))))"

text \<open>The packet object as the call leaves it, whether it returned or threw.\<close>

definition packet_after :: "(parse_error \<times> Packet) + Packet \<Rightarrow> Packet" where
  "packet_after r = (case r of Inl (e, p) \<Rightarrow> p | Inr p \<Rightarrow> p)"

subsection \<open>SendPacket\<close>

text \<open>
  \<open>StencilApp::SendPacket(packet)\<close> builds the datagram handed to \<open>SendUDPMessage\<close>.
  The integer fields are promoted and printed in base 10. The bytes appended last are the
  process-wide \<open>name\<close> (the first parameter here), not \<open>packet.name\<close>.
\<close>

definition SendPacket :: "string \<Rightarrow> Packet \<Rightarrow> string" where
  "SendPacket name_g packet =
     to_string (unat (packetType packet)) @
     to_string (unat (playerId packet)) @
     to_string (unat (movementState packet)) @
     to_string (unat (direction packet)) @
     to_string (unat (timestamp packet)) @
     name_g"


section \<open>Positions, render items and frame resources\<close>

text \<open>
  The program computes positions in \<open>float\<close>. The model computes them in \<open>real\<close>: the
  rounding of IEEE arithmetic is not modelled, the order of the operations is.
  \<open>XMFLOAT4X4\<close> is the 4x4 matrix by rows; \<open>XMMATRIX\<close> and \<open>XMVECTOR\<close> are the
  register forms of the same data, so loading and storing a matrix is the identity.
\<close>

record XMFLOAT3 =
  x :: real
  y :: real
  z :: real

type_synonym XMFLOAT2 = "real \<times> real"
type_synonym XMFLOAT4 = "real \<times> real \<times> real \<times> real"
type_synonym XMVECTOR = "real \<times> real \<times> real \<times> real"
type_synonym XMFLOAT4X4 = "real list list"
type_synonym XMMATRIX = "real list list"

definition XMVectorSet :: "real \<Rightarrow> real \<Rightarrow> real \<Rightarrow> real \<Rightarrow> XMVECTOR" where
  "XMVectorSet a b c d = (a, b, c, d)"

definition XMLoadFloat3 :: "XMFLOAT3 \<Rightarrow> XMVECTOR" where
  "XMLoadFloat3 v = (x v, y v, z v, 0)"

definition XMStoreFloat3 :: "XMVECTOR \<Rightarrow> XMFLOAT3" where
  "XMStoreFloat3 v = (case v of (a, b, c, d) \<Rightarrow> \<lparr>x = a, y = b, z = c\<rparr>)"

definition XMVectorNegate :: "XMVECTOR \<Rightarrow> XMVECTOR" where
  "XMVectorNegate v = (case v of (a, b, c, d) \<Rightarrow> (- a, - b, - c, - d))"

text \<open>
  The DirectXMath routines the source calls live outside the repository. They are
  parameters of the model: every operation below takes the library as its first argument
  and every theorem holds for any library.
\<close>

record DirectXMath =
  XMMatrixRotationY :: "real \<Rightarrow> XMMATRIX"
  XMMatrixScaling :: "real \<Rightarrow> real \<Rightarrow> real \<Rightarrow> XMMATRIX"
  XMMatrixTranslation :: "real \<Rightarrow> real \<Rightarrow> real \<Rightarrow> XMMATRIX"
  XMMatrixMultiply :: "XMMATRIX \<Rightarrow> XMMATRIX \<Rightarrow> XMMATRIX"
  XMMatrixReflect :: "XMVECTOR \<Rightarrow> XMMATRIX"
  XMMatrixShadow :: "XMVECTOR \<Rightarrow> XMVECTOR \<Rightarrow> XMMATRIX"
  XMMatrixTranspose :: "XMMATRIX \<Rightarrow> XMMATRIX"
  XMMatrixInverse :: "XMMATRIX \<Rightarrow> XMMATRIX"
  XMVector3TransformNormal :: "XMVECTOR \<Rightarrow> XMMATRIX \<Rightarrow> XMVECTOR"

text \<open>\<open>MathHelper::Max\<close>, \<open>MathHelper::Pi\<close> and \<open>MathHelper::Identity4x4\<close>.\<close>

definition MathHelper_Max :: "real \<Rightarrow> real \<Rightarrow> real" where
  "MathHelper_Max a b = (if a > b then a else b)"

definition MathHelper_Pi :: real where
  "MathHelper_Pi = 3.1415926535"

definition Identity4x4 :: XMFLOAT4X4 where
  "Identity4x4 = [[1, 0, 0, 0], [0, 1, 0, 0], [0, 0, 1, 0], [0, 0, 0, 1]]"

definition gNumFrameResources :: int where
  "gNumFrameResources = 3"

text \<open>
  The struct \<open>RenderItem\<close>, without the fields that only \<open>DrawRenderItems\<close> reads
  (material, geometry, topology and index range).
\<close>

record RenderItem =
  World :: XMFLOAT4X4
  TexTransform :: XMFLOAT4X4
  NumFramesDirty :: int
  ObjCBIndex :: nat

datatype ObjectConstants =
  ObjectConstants (cb_World: XMFLOAT4X4) (cb_TexTransform: XMFLOAT4X4)

record Light =
  Strength :: XMFLOAT3
  Direction :: XMFLOAT3

text \<open>
  The pass constants, with the fields the source assigns or reads. \<open>Lights\<close> is the
  array of lights, indexed from 0.
\<close>

record PassConstants =
  View :: XMFLOAT4X4
  InvView :: XMFLOAT4X4
  Proj :: XMFLOAT4X4
  InvProj :: XMFLOAT4X4
  ViewProj :: XMFLOAT4X4
  InvViewProj :: XMFLOAT4X4
  EyePosW :: XMFLOAT3
  RenderTargetSize :: XMFLOAT2
  InvRenderTargetSize :: XMFLOAT2
  NearZ :: real
  FarZ :: real
  TotalTime :: real
  DeltaTime :: real
  AmbientLight :: XMFLOAT4
  FogColor :: XMFLOAT4
  Lights :: "nat \<Rightarrow> Light"

text \<open>
  A frame resource: its upload buffers as maps from the element index to the element
  last copied there (\<open>CopyData(index, data)\<close>). A slot never written is \<open>None\<close>.
\<close>

record FrameResource =
  ObjectCB :: "nat \<rightharpoonup> ObjectConstants"
  PassCB :: "nat \<rightharpoonup> PassConstants"

text \<open>What the source reads from the camera and from the timer of a tick.\<close>

record Camera =
  GetView :: XMMATRIX
  GetProj :: XMMATRIX
  GetPosition3f :: XMFLOAT3

record GameTimer =
  gt_TotalTime :: real
  gt_DeltaTime :: real

text \<open>
  The state of the application: the members of \<open>StencilApp\<close> (and of its base class) that
  the modelled functions touch, followed by the variables at file scope. The members
  \<open>mSkullRitem\<close> to \<open>mShadowedSkullRitem_2\<close> are pointers into \<open>mAllRitems\<close>: here,
  positions in that list. \<open>mCurrFrameResource\<close> is
  \<open>mFrameResources[mCurrFrameResourceIndex]\<close>. The member \<open>movementState\<close> and the
  variables \<open>id\<close> and \<open>name\<close> carry a suffix, since a packet has fields of these names.
\<close>

record StencilApp =
  player :: int
  skull1 :: XMFLOAT3
  skull2 :: XMFLOAT3
  lastPacket :: Packet
  movementState_m :: int
  mFrameResources :: "FrameResource list"
  mCurrFrameResourceIndex :: nat
  mSkullRitem :: nat
  mReflectedSkullRitem :: nat
  mShadowedSkullRitem :: nat
  mSkullRitem_2 :: nat
  mReflectedSkullRitem_2 :: nat
  mShadowedSkullRitem_2 :: nat
  mAllRitems :: "RenderItem list"
  mMainPassCB :: PassConstants
  mReflectedPassCB :: PassConstants
  mClientWidth :: int
  mClientHeight :: int
  id_g :: int
  name_g :: string
  packetQueue :: "Packet list"
  prevDirection :: "8 word"
  prevA :: bool
  prevD :: bool
  prevW :: bool
  prevS :: bool
  wasMoving :: bool

section \<open>The receiver\<close>

text \<open>
  The comparator of the packet queue. The queue itself, a
  \<open>std::priority_queue<Packet, std::vector<Packet>, decltype(packetComparator)>\<close>, is
  the member \<open>packetQueue\<close> of the state, top first.
\<close>

definition packetComparator :: "Packet \<Rightarrow> Packet \<Rightarrow> bool" where
  "packetComparator lhs rhs = (timestamp lhs > timestamp rhs)"

text \<open>
  The body of the loop of \<open>StartAsyncMessageReceiver\<close> for one \<open>recvfrom\<close>, given the
  count it returned and the C string then at \<open>buffer\<close>. \<open>ParsePacket\<close> writes into
  \<open>this->lastPacket\<close>. Nothing in the thread catches an exception: \<open>Inl\<close> is the exception
  that leaves the thread's function, with the state at that moment.
\<close>

definition receive_datagram ::
  "StencilApp \<Rightarrow> int \<times> string \<Rightarrow> (parse_error \<times> StencilApp) + StencilApp" where
  "receive_datagram s d =
     (case d of (bytesReceived, buffer) \<Rightarrow>
        if bytesReceived > 0 then
          (case ParsePacket buffer (lastPacket s) of
             Inl (e, p) \<Rightarrow> Inl (e, s\<lparr>lastPacket := p\<rparr>)
           | Inr p \<Rightarrow>
               Inr (if movementState p = 0
                    then s\<lparr>lastPacket := p, movementState_m := 0\<rparr>
                    else s\<lparr>lastPacket := p, movementState_m := 1\<rparr>))
        else Inr s)"

text \<open>The loop \<open>while (isRunning)\<close> over the datagrams that arrive while the flag is set.\<close>

fun receiver_loop ::
  "StencilApp \<Rightarrow> (int \<times> string) list \<Rightarrow> (parse_error \<times> StencilApp) + StencilApp" where
  "receiver_loop s [] = Inr s"
| "receiver_loop s (d # ds) =
     (case receive_datagram s d of Inl e \<Rightarrow> Inl e | Inr s' \<Rightarrow> receiver_loop s' ds)"

text \<open>The application state when the receiver is done, or when its exception is thrown.\<close>

definition receiver_state :: "(parse_error \<times> StencilApp) + StencilApp \<Rightarrow> StencilApp" where
  "receiver_state r = (case r of Inl (e, s) \<Rightarrow> s | Inr s \<Rightarrow> s)"

section \<open>Movement\<close>

subsection \<open>UpdateSkullWorldMatrix\<close>

definition set_World :: "nat \<Rightarrow> XMFLOAT4X4 \<Rightarrow> RenderItem list \<Rightarrow> RenderItem list" where
  "set_World ritem m items = items[ritem := (items ! ritem)\<lparr>World := m\<rparr>]"

definition set_NumFramesDirty :: "nat \<Rightarrow> int \<Rightarrow> RenderItem list \<Rightarrow> RenderItem list" where
  "set_NumFramesDirty ritem n items = items[ritem := (items ! ritem)\<lparr>NumFramesDirty := n\<rparr>]"

definition UpdateSkullWorldMatrix ::
  "DirectXMath \<Rightarrow> XMFLOAT3 \<Rightarrow> nat \<Rightarrow> nat \<Rightarrow> nat \<Rightarrow> StencilApp \<Rightarrow> StencilApp" where
  "UpdateSkullWorldMatrix dx position skullRitem reflectedRitem shadowedRitem s =
     (let skullRotate = XMMatrixRotationY dx (0.5 * MathHelper_Pi);
          skullScale = XMMatrixScaling dx 0.45 0.45 0.45;
          skullOffset = XMMatrixTranslation dx (x position) (y position) (z position);
          skullWorld = XMMatrixMultiply dx (XMMatrixMultiply dx skullRotate skullScale) skullOffset;
          mirrorPlane = XMVectorSet 0 0 1 0;
          shadowPlane = XMVectorSet 0 1 0 0;
          toMainLight = XMVectorNegate (XMLoadFloat3 (Direction (Lights (mMainPassCB s) 0)));
          R = XMMatrixReflect dx mirrorPlane;
          S = XMMatrixShadow dx shadowPlane toMainLight;
          shadowOffsetY = XMMatrixTranslation dx 0 0.001 0;
          items = set_World skullRitem skullWorld (mAllRitems s);
          items = set_World reflectedRitem (XMMatrixMultiply dx skullWorld R) items;
          items = set_World shadowedRitem
                    (XMMatrixMultiply dx (XMMatrixMultiply dx skullWorld S) shadowOffsetY) items;
          items = set_NumFramesDirty skullRitem gNumFrameResources items;
          items = set_NumFramesDirty reflectedRitem gNumFrameResources items;
          items = set_NumFramesDirty shadowedRitem gNumFrameResources items
      in s\<lparr>mAllRitems := items\<rparr>)"

subsection \<open>The three overloads of UpdatePosition\<close>

text \<open>
  \<open>UpdatePosition(A, D, W, S, dt, position)\<close>. The actor is chosen by \<open>player\<close>, the
  render items by \<open>id\<close>; the last parameter is not used by the source.
\<close>

definition UpdatePosition_keys ::
  "DirectXMath \<Rightarrow> bool \<Rightarrow> bool \<Rightarrow> bool \<Rightarrow> bool \<Rightarrow> real \<Rightarrow> StencilApp \<Rightarrow> StencilApp" where
  "UpdatePosition_keys dx A D W S dt s =
     (let skull = (if player s = 1 then skull1 s else skull2 s);
          skull = (if A then skull\<lparr>x := x skull - 1.0 * dt\<rparr> else skull);
          skull = (if D then skull\<lparr>x := x skull + 1.0 * dt\<rparr> else skull);
          skull = (if W then skull\<lparr>y := y skull + 1.0 * dt\<rparr> else skull);
          skull = (if S then skull\<lparr>y := y skull - 1.0 * dt\<rparr> else skull);
          skull = skull\<lparr>y := MathHelper_Max (y skull) 0.0\<rparr>;
          s = (if player s = 1 then s\<lparr>skull1 := skull\<rparr> else s\<lparr>skull2 := skull\<rparr>)
      in if id_g s = 2
         then UpdateSkullWorldMatrix dx skull (mSkullRitem_2 s) (mReflectedSkullRitem_2 s)
                (mShadowedSkullRitem_2 s) s
         else UpdateSkullWorldMatrix dx skull (mSkullRitem s) (mReflectedSkullRitem s)
                (mShadowedSkullRitem s) s)"

text \<open>\<open>UpdatePosition()\<close>: no translation, the clamp and the transforms again.\<close>

definition UpdatePosition_none :: "DirectXMath \<Rightarrow> StencilApp \<Rightarrow> StencilApp" where
  "UpdatePosition_none dx s =
     (let skull = (if player s = 1 then skull1 s else skull2 s);
          skull = skull\<lparr>y := MathHelper_Max (y skull) 0.0\<rparr>;
          s = (if player s = 1 then s\<lparr>skull1 := skull\<rparr> else s\<lparr>skull2 := skull\<rparr>)
      in if id_g s = 2
         then UpdateSkullWorldMatrix dx skull (mSkullRitem_2 s) (mReflectedSkullRitem_2 s)
                (mShadowedSkullRitem_2 s) s
         else UpdateSkullWorldMatrix dx skull (mSkullRitem s) (mReflectedSkullRitem s)
                (mShadowedSkullRitem s) s)"

text \<open>
  The \<open>switch (packet.direction)\<close> of \<open>UpdatePosition(Packet, float)\<close>. It has no
  \<open>default\<close>: a direction above 8 moves nothing.
\<close>

definition switch_direction :: "8 word \<Rightarrow> real \<Rightarrow> XMFLOAT3 \<Rightarrow> XMFLOAT3" where
  "switch_direction dir dt skull =
     (if dir = 0 then skull
      else if dir = 1 then skull\<lparr>y := y skull + 1.0 * dt\<rparr>
      else if dir = 2 then skull\<lparr>y := y skull - 1.0 * dt\<rparr>
      else if dir = 3 then skull\<lparr>x := x skull + 1.0 * dt\<rparr>
      else if dir = 4 then skull\<lparr>x := x skull - 1.0 * dt\<rparr>
      else if dir = 5 then (skull\<lparr>x := x skull + 1.0 * dt\<rparr>)\<lparr>y := y skull + 1.0 * dt\<rparr>
      else if dir = 6 then (skull\<lparr>x := x skull - 1.0 * dt\<rparr>)\<lparr>y := y skull + 1.0 * dt\<rparr>
      else if dir = 7 then (skull\<lparr>x := x skull - 1.0 * dt\<rparr>)\<lparr>y := y skull - 1.0 * dt\<rparr>
      else if dir = 8 then (skull\<lparr>x := x skull + 1.0 * dt\<rparr>)\<lparr>y := y skull - 1.0 * dt\<rparr>
      else skull)"

text \<open>
  \<open>UpdatePosition(packet, dt)\<close>. The actor is \<open>skull1\<close> for player 1 and \<open>skull2\<close> for
  any other player; \<open>packet.playerId\<close> is promoted to \<open>int\<close> for the comparison with
  \<open>id\<close>.
\<close>

definition UpdatePosition_packet ::
  "DirectXMath \<Rightarrow> Packet \<Rightarrow> real \<Rightarrow> StencilApp \<Rightarrow> StencilApp" where
  "UpdatePosition_packet dx packet dt s =
     (let s =
        (if movementState packet = 1 \<and> uint (playerId packet) \<noteq> id_g s then
           (let skull = (if playerId packet = 1 then skull1 s else skull2 s);
                skull = switch_direction (direction packet) dt skull;
                skull = skull\<lparr>y := MathHelper_Max (y skull) 0.0\<rparr>;
                s = (if playerId packet = 1 then s\<lparr>skull1 := skull\<rparr> else s\<lparr>skull2 := skull\<rparr>)
            in if playerId packet = 2
               then UpdateSkullWorldMatrix dx skull (mSkullRitem_2 s) (mReflectedSkullRitem_2 s)
                      (mShadowedSkullRitem_2 s) s
               else UpdateSkullWorldMatrix dx skull (mSkullRitem s) (mReflectedSkullRitem s)
                      (mShadowedSkullRitem s) s)
         else s)
      in s\<lparr>lastPacket := packet\<rparr>)"

subsection \<open>ContinuousMovement\<close>

definition ContinuousMovement :: "DirectXMath \<Rightarrow> real \<Rightarrow> StencilApp \<Rightarrow> StencilApp" where
  "ContinuousMovement dx dt s =
     (if movementState_m s = 1 then UpdatePosition_packet dx (lastPacket s) dt s
      else UpdatePosition_none dx s)"

text \<open>Successive ticks of the integrator, one for each frame time of the list.\<close>

fun ticks :: "DirectXMath \<Rightarrow> real list \<Rightarrow> StencilApp \<Rightarrow> StencilApp" where
  "ticks dx [] s = s"
| "ticks dx (dt # dts) s = ticks dx dts (ContinuousMovement dx dt s)"

section \<open>Keyboard input\<close>

definition DetermineDirection :: "bool \<Rightarrow> bool \<Rightarrow> bool \<Rightarrow> bool \<Rightarrow> 8 word" where
  "DetermineDirection A D W S =
     (if W \<and> \<not> A \<and> \<not> D \<and> \<not> S then 1
      else if S \<and> \<not> A \<and> \<not> D \<and> \<not> W then 2
      else if D \<and> \<not> W \<and> \<not> S \<and> \<not> A then 3
      else if A \<and> \<not> W \<and> \<not> S \<and> \<not> D then 4
      else if W \<and> D then 5
      else if W \<and> A then 6
      else if S \<and> A then 7
      else if S \<and> D then 8
      else 0)"

text \<open>
  \<open>OnKeyboardInput\<close>, given the four key states read by \<open>GetAsyncKeyState\<close>, the frame
  time and the system clock in milliseconds. The result is the new state and the
  datagrams handed to \<open>SendUDPMessage\<close>, in order. A packet declared in the function has
  the empty \<open>name\<close> of a default \<open>std::string\<close>. The camera is not modelled.
\<close>

definition OnKeyboardInput ::
  "DirectXMath \<Rightarrow> bool \<Rightarrow> bool \<Rightarrow> bool \<Rightarrow> bool \<Rightarrow> real \<Rightarrow> nat \<Rightarrow> StencilApp
     \<Rightarrow> StencilApp \<times> string list" where
  "OnKeyboardInput dx currentA currentD currentW currentS dt now_ms s =
     (let newDirection = DetermineDirection currentA currentD currentW currentS;
          justStartedMoving = (\<not> wasMoving s \<and> (currentA \<or> currentD \<or> currentW \<or> currentS));
          justStoppedMoving = (wasMoving s \<and> \<not> (currentA \<or> currentD \<or> currentW \<or> currentS));
          directionChanged = (wasMoving s \<and> newDirection \<noteq> prevDirection s);
          sent =
            (if justStartedMoving \<or> directionChanged then
               [SendPacket (name_g s)
                  \<lparr>packetType = 0, playerId = of_int (id_g s), movementState = 1,
                   direction = newDirection, timestamp = of_nat now_ms, name = []\<rparr>]
             else if justStoppedMoving then
               [SendPacket (name_g s)
                  \<lparr>packetType = 0, playerId = of_int (id_g s), movementState = 0,
                   direction = 0, timestamp = of_nat now_ms, name = []\<rparr>]
             else []);
          s = (if currentA \<or> currentD \<or> currentW \<or> currentS
               then UpdatePosition_keys dx currentA currentD currentW currentS dt s else s)
      in (s\<lparr>prevA := currentA, prevD := currentD, prevW := currentW, prevS := currentS,
             wasMoving := (currentA \<or> currentD \<or> currentW \<or> currentS),
             prevDirection := newDirection\<rparr>,
          sent))"

section \<open>Per-frame constants\<close>

text \<open>The two statements of \<open>Update\<close> that cycle through the ring of frame resources.\<close>

definition CycleFrameResource :: "StencilApp \<Rightarrow> StencilApp" where
  "CycleFrameResource s =
     s\<lparr>mCurrFrameResourceIndex :=
         nat ((int (mCurrFrameResourceIndex s) + 1) mod gNumFrameResources)\<rparr>"

text \<open>The loop of \<open>UpdateObjectCBs\<close> over \<open>mAllRitems\<close>, writing into \<open>currObjectCB\<close>.\<close>

fun UpdateObjectCBs_loop ::
  "DirectXMath \<Rightarrow> RenderItem list \<Rightarrow> (nat \<rightharpoonup> ObjectConstants)
     \<Rightarrow> RenderItem list \<times> (nat \<rightharpoonup> ObjectConstants)" where
  "UpdateObjectCBs_loop dx [] currObjectCB = ([], currObjectCB)"
| "UpdateObjectCBs_loop dx (e # es) currObjectCB =
     (if NumFramesDirty e > 0 then
        (let objConstants = ObjectConstants (XMMatrixTranspose dx (World e))
                              (XMMatrixTranspose dx (TexTransform e));
             currObjectCB = currObjectCB(ObjCBIndex e \<mapsto> objConstants);
             e = e\<lparr>NumFramesDirty := NumFramesDirty e - 1\<rparr>
         in case UpdateObjectCBs_loop dx es currObjectCB of (es', cb) \<Rightarrow> (e # es', cb))
      else
        (case UpdateObjectCBs_loop dx es currObjectCB of (es', cb) \<Rightarrow> (e # es', cb)))"

definition UpdateObjectCBs :: "DirectXMath \<Rightarrow> StencilApp \<Rightarrow> StencilApp" where
  "UpdateObjectCBs dx s =
     (let f = mCurrFrameResourceIndex s;
          mCurrFrameResource = mFrameResources s ! f
      in case UpdateObjectCBs_loop dx (mAllRitems s) (ObjectCB mCurrFrameResource) of
           (items, cb) \<Rightarrow>
             s\<lparr>mAllRitems := items,
               mFrameResources := (mFrameResources s)[f := mCurrFrameResource\<lparr>ObjectCB := cb\<rparr>]\<rparr>)"

text \<open>
  A frame in which no transform is mutated: the next frame resource of the ring becomes
  current and receives the object constants.
\<close>

definition frame :: "DirectXMath \<Rightarrow> StencilApp \<Rightarrow> StencilApp" where
  "frame dx s = UpdateObjectCBs dx (CycleFrameResource s)"

definition UpdateMainPassCB :: "DirectXMath \<Rightarrow> Camera \<Rightarrow> GameTimer \<Rightarrow> StencilApp \<Rightarrow> StencilApp" where
  "UpdateMainPassCB dx mCamera gt s =
     (let view = GetView mCamera;
          proj = GetProj mCamera;
          viewProj = XMMatrixMultiply dx view proj;
          invView = XMMatrixInverse dx view;
          invProj = XMMatrixInverse dx proj;
          invViewProj = XMMatrixInverse dx viewProj;
          L = Lights (mMainPassCB s);
          L = L(0 := (L 0)\<lparr>Direction := \<lparr>x = 0.57735, y = - 0.57735, z = 0.57735\<rparr>\<rparr>);
          L = L(0 := (L 0)\<lparr>Strength := \<lparr>x = 0.6, y = 0.6, z = 0.6\<rparr>\<rparr>);
          L = L(1 := (L 1)\<lparr>Direction := \<lparr>x = - 0.57735, y = - 0.57735, z = 0.57735\<rparr>\<rparr>);
          L = L(1 := (L 1)\<lparr>Strength := \<lparr>x = 0.3, y = 0.3, z = 0.3\<rparr>\<rparr>);
          L = L(2 := (L 2)\<lparr>Direction := \<lparr>x = 0.0, y = - 0.707, z = - 0.707\<rparr>\<rparr>);
          L = L(2 := (L 2)\<lparr>Strength := \<lparr>x = 0.15, y = 0.15, z = 0.15\<rparr>\<rparr>);
          cb = (mMainPassCB s)
                 \<lparr>View := XMMatrixTranspose dx view,
                  InvView := XMMatrixTranspose dx invView,
                  Proj := XMMatrixTranspose dx proj,
                  InvProj := XMMatrixTranspose dx invProj,
                  ViewProj := XMMatrixTranspose dx viewProj,
                  InvViewProj := XMMatrixTranspose dx invViewProj,
                  EyePosW := GetPosition3f mCamera,
                  RenderTargetSize := (real_of_int (mClientWidth s), real_of_int (mClientHeight s)),
                  InvRenderTargetSize :=
                    (1.0 / real_of_int (mClientWidth s), 1.0 / real_of_int (mClientHeight s)),
                  NearZ := 1.0,
                  FarZ := 1000.0,
                  TotalTime := gt_TotalTime gt,
                  DeltaTime := gt_DeltaTime gt,
                  AmbientLight := (0.25, 0.25, 0.35, 1.0),
                  Lights := L\<rparr>;
          f = mCurrFrameResourceIndex s;
          mCurrFrameResource = mFrameResources s ! f;
          currPassCB = (PassCB mCurrFrameResource)(0 \<mapsto> cb)
      in s\<lparr>mMainPassCB := cb,
           mFrameResources := (mFrameResources s)[f := mCurrFrameResource\<lparr>PassCB := currPassCB\<rparr>]\<rparr>)"

text \<open>The loop \<open>for (int i = 0; i < 3; ++i)\<close> of \<open>UpdateReflectedPassCB\<close>.\<close>

function reflect_lights ::
  "DirectXMath \<Rightarrow> XMMATRIX \<Rightarrow> PassConstants \<Rightarrow> nat \<Rightarrow> PassConstants \<Rightarrow> PassConstants" where
  "reflect_lights dx R mainCB i reflectedCB =
     (if i < 3 then
        (let lightDir = XMLoadFloat3 (Direction (Lights mainCB i));
             reflectedLightDir = XMVector3TransformNormal dx lightDir R;
             L = Lights reflectedCB
         in reflect_lights dx R mainCB (Suc i)
              (reflectedCB\<lparr>Lights := L(i := (L i)\<lparr>Direction := XMStoreFloat3 reflectedLightDir\<rparr>)\<rparr>))
      else reflectedCB)"
  by pat_completeness auto
termination
  by (relation "measure (\<lambda>(dx, R, mainCB, i, reflectedCB). 3 - i)") auto

declare reflect_lights.simps [simp del]

definition UpdateReflectedPassCB :: "DirectXMath \<Rightarrow> StencilApp \<Rightarrow> StencilApp" where
  "UpdateReflectedPassCB dx s =
     (let cb = mMainPassCB s;
          mirrorPlane = XMVectorSet 0 0 1 0;
          R = XMMatrixReflect dx mirrorPlane;
          cb = reflect_lights dx R (mMainPassCB s) 0 cb;
          f = mCurrFrameResourceIndex s;
          mCurrFrameResource = mFrameResources s ! f;
          currPassCB = (PassCB mCurrFrameResource)(1 \<mapsto> cb)
      in s\<lparr>mReflectedPassCB := cb,
           mFrameResources := (mFrameResources s)[f := mCurrFrameResource\<lparr>PassCB := currPassCB\<rparr>]\<rparr>)"

section \<open>The packet queue\<close>

text \<open>
  \<open>std::priority_queue\<close> is library code. By its contract \<open>top()\<close> is an element that
  the comparator puts before no other element of the queue, and \<open>pop()\<close> removes it.
  The model keeps the elements in a list, the top first: \<open>push\<close> moves the new element
  behind those the comparator puts it before.
\<close>

fun pq_push :: "('a \<Rightarrow> 'a \<Rightarrow> bool) \<Rightarrow> 'a \<Rightarrow> 'a list \<Rightarrow> 'a list" where
  "pq_push cmp v [] = [v]"
| "pq_push cmp v (u # us) = (if cmp v u then u # pq_push cmp v us else v # u # us)"

definition pq_top :: "'a list \<Rightarrow> 'a option" where
  "pq_top q = (case q of [] \<Rightarrow> None | t # r \<Rightarrow> Some t)"

definition pq_pop :: "'a list \<Rightarrow> 'a list" where
  "pq_pop q = (case q of [] \<Rightarrow> [] | t # r \<Rightarrow> r)"

text \<open>The packet queue after the packets of a list are pushed in the order of the list.\<close>

definition push_all :: "Packet list \<Rightarrow> Packet list \<Rightarrow> Packet list" where
  "push_all ps q = foldl (\<lambda>q p. pq_push packetComparator p q) q ps"

section \<open>The scene as built\<close>

text \<open>
  \<open>BuildRenderItems\<close>: the thirteen items in the order they are pushed to \<open>mAllRitems\<close>
  (floor, skull with its reflection and shadow, second skull with its reflection and
  shadow, six cube faces), each with \<open>NumFramesDirty\<close> at its initial value.
\<close>

definition new_RenderItem :: "XMFLOAT4X4 \<Rightarrow> nat \<Rightarrow> RenderItem" where
  "new_RenderItem world idx =
     \<lparr>World = world, TexTransform = Identity4x4, NumFramesDirty = gNumFrameResources,
      ObjCBIndex = idx\<rparr>"

definition BuildRenderItems :: "DirectXMath \<Rightarrow> RenderItem list" where
  "BuildRenderItems dx =
     (let floorRitem = new_RenderItem Identity4x4 0;
          skullRitem = new_RenderItem Identity4x4 1;
          reflectedSkullRitem = skullRitem\<lparr>ObjCBIndex := 2\<rparr>;
          shadowedSkullRitem = skullRitem\<lparr>ObjCBIndex := 3\<rparr>;
          skullRitem2 = new_RenderItem Identity4x4 4;
          reflectedSkullRitem2 = skullRitem2\<lparr>ObjCBIndex := 5\<rparr>;
          shadowedSkullRitem2 = skullRitem2\<lparr>ObjCBIndex := 6\<rparr>;
          cubeWorld = XMMatrixMultiply dx (XMMatrixScaling dx 2.0 2.0 2.0)
                        (XMMatrixTranslation dx 0.0 2.0 0.0)
      in [floorRitem, skullRitem, reflectedSkullRitem, shadowedSkullRitem,
          skullRitem2, reflectedSkullRitem2, shadowedSkullRitem2]
         @ map (\<lambda>k. new_RenderItem cubeWorld k) [7, 8, 9, 10, 11, 12])"

text \<open>
  The application once its scene and frame resources are built, for a process with the
  given \<open>id\<close> and \<open>name\<close>: members with an initialiser have its value, the six cached
  pointers are the positions of their items, and each of the three frame resources is
  empty. The source leaves the integer fields of \<open>lastPacket\<close> without an initial value,
  and the initial pass constants and client size are set outside the repository: the
  values they have here are read by the examples only.
\<close>

definition empty_PassConstants :: PassConstants where
  "empty_PassConstants =
     \<lparr>View = Identity4x4, InvView = Identity4x4, Proj = Identity4x4, InvProj = Identity4x4,
      ViewProj = Identity4x4, InvViewProj = Identity4x4,
      EyePosW = \<lparr>x = 0, y = 0, z = 0\<rparr>,
      RenderTargetSize = (0, 0), InvRenderTargetSize = (0, 0),
      NearZ = 0, FarZ = 0, TotalTime = 0, DeltaTime = 0,
      AmbientLight = (0, 0, 0, 1), FogColor = (0.7, 0.7, 0.7, 1),
      Lights = (\<lambda>i. \<lparr>Strength = \<lparr>x = 0.5, y = 0.5, z = 0.5\<rparr>,
                       Direction = \<lparr>x = 0, y = - 1, z = 0\<rparr>\<rparr>)\<rparr>"

definition built_app :: "DirectXMath \<Rightarrow> int \<Rightarrow> string \<Rightarrow> StencilApp" where
  "built_app dx id0 name0 =
     \<lparr>player = 1,
      skull1 = \<lparr>x = 0.0, y = 1.0, z = - 10.0\<rparr>,
      skull2 = \<lparr>x = 5.0, y = 1.0, z = - 10.0\<rparr>,
      lastPacket = \<lparr>packetType = 0, playerId = 0, movementState = 0, direction = 0,
                    timestamp = 0, name = []\<rparr>,
      movementState_m = 0,
      mFrameResources = replicate (nat gNumFrameResources) \<lparr>ObjectCB = Map.empty, PassCB = Map.empty\<rparr>,
      mCurrFrameResourceIndex = 0,
      mSkullRitem = 1, mReflectedSkullRitem = 2, mShadowedSkullRitem = 3,
      mSkullRitem_2 = 4, mReflectedSkullRitem_2 = 5, mShadowedSkullRitem_2 = 6,
      mAllRitems = BuildRenderItems dx,
      mMainPassCB = empty_PassConstants,
      mReflectedPassCB = empty_PassConstants,
      mClientWidth = 800, mClientHeight = 600,
      id_g = id0, name_g = name0,
      packetQueue = [],
      prevDirection = 0,
      prevA = False, prevD = False, prevW = False, prevS = False,
      wasMoving = False\<rparr>"

text \<open>
  A library to run the model with in the examples: exact arithmetic on rows, with the
  row-vector conventions of DirectXMath. Its rotation is the quarter turn (the only angle
  the source passes), its reflection and shadow take a plane with a unit normal, and its
  inverse is only right for the identity.
\<close>

definition mat_mul :: "XMMATRIX \<Rightarrow> XMMATRIX \<Rightarrow> XMMATRIX" where
  "mat_mul a b = map (\<lambda>row. map (\<lambda>col. sum_list (map2 (*) row col)) (transpose b)) a"

definition dx_sample :: DirectXMath where
  "dx_sample =
     \<lparr>XMMatrixRotationY = (\<lambda>angle. [[0, 0, - 1, 0], [0, 1, 0, 0], [1, 0, 0, 0], [0, 0, 0, 1]]),
      XMMatrixScaling = (\<lambda>a b c. [[a, 0, 0, 0], [0, b, 0, 0], [0, 0, c, 0], [0, 0, 0, 1]]),
      XMMatrixTranslation = (\<lambda>a b c. [[1, 0, 0, 0], [0, 1, 0, 0], [0, 0, 1, 0], [a, b, c, 1]]),
      XMMatrixMultiply = mat_mul,
      XMMatrixReflect = (\<lambda>p. case p of (a, b, c, d) \<Rightarrow>
         [[1 - 2 * a * a, - 2 * a * b, - 2 * a * c, 0],
          [- 2 * b * a, 1 - 2 * b * b, - 2 * b * c, 0],
          [- 2 * c * a, - 2 * c * b, 1 - 2 * c * c, 0],
          [- 2 * d * a, - 2 * d * b, - 2 * d * c, 1]]),
      XMMatrixShadow = (\<lambda>p l. case p of (a, b, c, d) \<Rightarrow> case l of (lx, ly, lz, lw) \<Rightarrow>
         (let k = a * lx + b * ly + c * lz + d * lw in
          [[k - a * lx, - a * ly, - a * lz, - a * lw],
           [- b * lx, k - b * ly, - b * lz, - b * lw],
           [- c * lx, - c * ly, k - c * lz, - c * lw],
           [- d * lx, - d * ly, - d * lz, k - d * lw]])),
      XMMatrixTranspose = transpose,
      XMMatrixInverse = (\<lambda>m. m),
      XMVector3TransformNormal = (\<lambda>v m. case v of (a, b, c, d) \<Rightarrow>
         (a * m ! 0 ! 0 + b * m ! 1 ! 0 + c * m ! 2 ! 0,
          a * m ! 0 ! 1 + b * m ! 1 ! 1 + c * m ! 2 ! 1,
          a * m ! 0 ! 2 + b * m ! 1 ! 2 + c * m ! 2 ! 2,
          0))\<rparr>"

section \<open>Notions the statements use\<close>

text \<open>A field that is a single decimal digit.\<close>

definition single_digit :: "'a::len word \<Rightarrow> bool" where
  "single_digit w = (unat w < 10)"

text \<open>A name whose first byte (if any) is not a decimal digit.\<close>

definition no_leading_digit :: "string \<Rightarrow> bool" where
  "no_leading_digit nm = (case nm of [] \<Rightarrow> True | c # r \<Rightarrow> \<not> isdigit c)"

text \<open>
  The number of decimal digits a buffer starts with, the digits that follow its first
  four bytes, and whether a run of digits is the decimal form of an unsigned 32-bit
  integer.
\<close>

definition leading_digits :: "string \<Rightarrow> nat" where
  "leading_digits buf = length (takeWhile isdigit buf)"

definition timestamp_portion :: "string \<Rightarrow> string" where
  "timestamp_portion buf = takeWhile isdigit (drop 4 buf)"

definition parseable_u32 :: "string \<Rightarrow> bool" where
  "parseable_u32 ds = (ds \<noteq> [] \<and> decimal 0 ds < 2 ^ 32)"

text \<open>Whether the call threw.\<close>

definition failed :: "('e \<times> 'a) + 'a \<Rightarrow> bool" where
  "failed r = (case r of Inl e \<Rightarrow> True | Inr v \<Rightarrow> False)"

text \<open>
  The end of the timestamp digits in a buffer, as \<open>ParsePacket\<close> computes it
  (\<open>nameStart\<close>).
\<close>

definition nameStart_of :: "string \<Rightarrow> nat" where
  "nameStart_of buf = scan_digits (c_str buf) 4"

text \<open>
  The actor a packet of a player moves (\<open>(packet.playerId == 1) ? &skull1 : &skull2\<close>)
  and the actor the keyboard moves (\<open>(player == 1) ? &skull1 : &skull2\<close>).
\<close>

definition remote_actor :: "16 word \<Rightarrow> StencilApp \<Rightarrow> XMFLOAT3" where
  "remote_actor pid s = (if pid = 1 then skull1 s else skull2 s)"

definition local_actor :: "StencilApp \<Rightarrow> XMFLOAT3" where
  "local_actor s = (if player s = 1 then skull1 s else skull2 s)"

text \<open>
  The direction table of the specification: the sign of the motion along x and along y
  for each direction code (0 for a code that names no motion).
\<close>

definition axis_x :: "8 word \<Rightarrow> real" where
  "axis_x dir = (if dir = 3 \<or> dir = 5 \<or> dir = 8 then 1
                 else if dir = 4 \<or> dir = 6 \<or> dir = 7 then - 1 else 0)"

definition axis_y :: "8 word \<Rightarrow> real" where
  "axis_y dir = (if dir = 1 \<or> dir = 5 \<or> dir = 6 then 1
                 else if dir = 2 \<or> dir = 7 \<or> dir = 8 then - 1 else 0)"

text \<open>
  One step of the specified integrator, and its steps over a list of frame times: a
  translation by \<open>dt\<close> along the axes of the direction, then the clamp of y at 0.
\<close>

definition translate_clamped :: "8 word \<Rightarrow> real \<Rightarrow> XMFLOAT3 \<Rightarrow> XMFLOAT3" where
  "translate_clamped dir dt p =
     \<lparr>x = x p + axis_x dir * dt, y = max (y p + axis_y dir * dt) 0, z = z p\<rparr>"

fun integrate :: "8 word \<Rightarrow> real list \<Rightarrow> XMFLOAT3 \<Rightarrow> XMFLOAT3" where
  "integrate dir [] p = p"
| "integrate dir (dt # dts) p = integrate dir dts (translate_clamped dir dt p)"

text \<open>The constants \<open>UpdateObjectCBs\<close> copies for an item.\<close>

definition constants_of :: "DirectXMath \<Rightarrow> RenderItem \<Rightarrow> ObjectConstants" where
  "constants_of dx e =
     ObjectConstants (XMMatrixTranspose dx (World e)) (XMMatrixTranspose dx (TexTransform e))"

text \<open>A light direction reflected as \<open>UpdateReflectedPassCB\<close> reflects it.\<close>

definition reflected_direction :: "DirectXMath \<Rightarrow> XMFLOAT3 \<Rightarrow> XMFLOAT3" where
  "reflected_direction dx d =
     XMStoreFloat3 (XMVector3TransformNormal dx (XMLoadFloat3 d)
                      (XMMatrixReflect dx (XMVectorSet 0 0 1 0)))"

text \<open>
  The statements of \<open>UpdatePosition(A, D, W, S, dt, position)\<close> on the actor itself,
  from the first key test to the clamp.
\<close>

definition move_by_keys :: "bool \<Rightarrow> bool \<Rightarrow> bool \<Rightarrow> bool \<Rightarrow> real \<Rightarrow> XMFLOAT3 \<Rightarrow> XMFLOAT3" where
  "move_by_keys A D W S dt skull0 =
     (let skull = skull0;
          skull = (if A then skull\<lparr>x := x skull - 1.0 * dt\<rparr> else skull);
          skull = (if D then skull\<lparr>x := x skull + 1.0 * dt\<rparr> else skull);
          skull = (if W then skull\<lparr>y := y skull + 1.0 * dt\<rparr> else skull);
          skull = (if S then skull\<lparr>y := y skull - 1.0 * dt\<rparr> else skull)
      in skull\<lparr>y := MathHelper_Max (y skull) 0.0\<rparr>)"

text \<open>A render item as one pass of the loop of \<open>UpdateObjectCBs\<close> leaves it.\<close>

definition frame_item :: "RenderItem \<Rightarrow> RenderItem" where
  "frame_item e = (if NumFramesDirty e > 0 then e\<lparr>NumFramesDirty := NumFramesDirty e - 1\<rparr> else e)"

section \<open>Properties of the codec\<close>

lemma isdigit_not_space: "isdigit c \<Longrightarrow> \<not> isspace c"
  by (auto simp: isdigit_def isspace_def)

lemma isdigit_not_sign: "isdigit c \<Longrightarrow> c \<noteq> CHR ''-'' \<and> c \<noteq> CHR ''+''"
  by (auto simp: isdigit_def)

lemma isdigit_not_NUL: "isdigit c \<Longrightarrow> c \<noteq> CHR 0x00"
  by (auto simp: isdigit_def)

lemma sign_not_digit: "\<not> isdigit CHR ''-''" "\<not> isdigit CHR ''+''"
  by (simp_all add: isdigit_def)

lemma digit_val_lt10: "isdigit c \<Longrightarrow> digit_val c < 10"
  by (auto simp: isdigit_def digit_val_def)

lemma stoi_Nil: "stoi [] = Inl invalid_argument"
  by (simp add: stoi_def)

lemma stoi_single:
  "stoi [c] = (if isdigit c then Inr (int (digit_val c)) else Inl invalid_argument)"
proof (cases "isdigit c")
  case True
  then have "\<not> isspace c" "c \<noteq> CHR ''-''" "c \<noteq> CHR ''+''"
    using isdigit_not_space isdigit_not_sign by auto
  moreover have "digit_val c < 10" using True by (rule digit_val_lt10)
  ultimately show ?thesis using True by (simp add: stoi_def)
next
  case False
  then show ?thesis
    by (cases "isspace c") (auto simp: stoi_def sign_not_digit)
qed

lemma stoi_substr_eq:
  "stoi_substr data pos =
     (if pos < length data \<and> isdigit (data ! pos) then Inr (int (digit_val (data ! pos)))
      else if length data < pos then Inl out_of_range else Inl invalid_argument)"
proof -
  consider "length data < pos" | "pos = length data" | "pos < length data" by linarith
  then show ?thesis
  proof cases
    case 1 then show ?thesis by (simp add: stoi_substr_def substr_def)
  next
    case 2 then show ?thesis by (simp add: stoi_substr_def substr_def stoi_Nil)
  next
    case 3
    then have "take 1 (drop pos data) = [data ! pos]"
      by (metis Cons_nth_drop_Suc One_nat_def take0 take_Suc_Cons)
    with 3 show ?thesis by (simp add: stoi_substr_def substr_def stoi_single)
  qed
qed

lemma scan_digits_eq:
  "scan_digits data n = n + length (takeWhile isdigit (drop n data))"
proof (induction data n rule: scan_digits.induct)
  case (1 data nameStart)
  show ?case
  proof (cases "nameStart < length data \<and> isdigit (data ! nameStart)")
    case True
    then have "drop nameStart data = data ! nameStart # drop (Suc nameStart) data"
      by (simp add: Cons_nth_drop_Suc)
    with True 1 show ?thesis
      by (subst scan_digits.simps) simp
  next
    case False
    then have "takeWhile isdigit (drop nameStart data) = []"
      by (cases "nameStart < length data") (auto simp: takeWhile_eq_Nil_iff hd_drop_conv_nth)
    with False show ?thesis
      by (subst scan_digits.simps) auto
  qed
qed

lemma takeWhile_all: "list_all P xs \<Longrightarrow> takeWhile P xs = xs"
  by (simp add: list_all_iff)

lemma stoul_digits:
  assumes "list_all isdigit ds"
  shows "stoul ds = (if ds = [] then Inl invalid_argument
                     else if ULONG_MAX < decimal 0 ds then Inl out_of_range
                     else Inr (decimal 0 ds))"
proof (cases ds)
  case Nil
  then show ?thesis by (simp add: stoul_def)
next
  case (Cons c cs)
  with assms have c: "isdigit c" and cs: "list_all isdigit cs" by simp_all
  then have "\<not> isspace c" "c \<noteq> CHR ''-''" "c \<noteq> CHR ''+''"
    using isdigit_not_space isdigit_not_sign by auto
  then show ?thesis using Cons c cs by (simp add: stoul_def Let_def takeWhile_all)
qed


lemma takeWhile_drop_prefix:
  "n \<le> length (takeWhile P xs) \<Longrightarrow> takeWhile P (drop n xs) = drop n (takeWhile P xs)"
proof (induction xs arbitrary: n)
  case Nil
  then show ?case by simp
next
  case (Cons x xs)
  then show ?case by (cases n) (auto split: if_splits)
qed

lemma takeWhile_isdigit_c_str: "takeWhile isdigit (c_str buf) = takeWhile isdigit buf"
  unfolding c_str_def by (induction buf) (auto dest: isdigit_not_NUL)

lemma leading_digit_at:
  assumes "pos < length (takeWhile isdigit data)"
  shows "pos < length data" "isdigit (data ! pos)" "takeWhile isdigit data ! pos = data ! pos"
proof -
  show "pos < length data"
    using assms length_takeWhile_le [of isdigit data] by linarith
  show "takeWhile isdigit data ! pos = data ! pos"
    using assms by (rule takeWhile_nth)
  show "isdigit (data ! pos)"
    using assms nth_mem [OF assms] set_takeWhileD takeWhile_nth by metis
qed

lemma leading_digit_end:
  "\<not> (length (takeWhile isdigit data) < length data \<and> isdigit (data ! length (takeWhile isdigit data)))"
  using nth_length_takeWhile [of isdigit data] by auto

lemma stoi_substr_leading:
  "pos < length (takeWhile isdigit data) \<Longrightarrow>
     stoi_substr data pos = Inr (int (digit_val (takeWhile isdigit data ! pos)))"
  by (simp add: stoi_substr_eq leading_digit_at)

lemma stoi_substr_end:
  "stoi_substr data (length (takeWhile isdigit data)) = Inl invalid_argument"
  using leading_digit_end [of data] length_takeWhile_le [of isdigit data]
  by (auto simp: stoi_substr_eq)

lemma timestamp_substr:
  assumes "4 \<le> length (takeWhile isdigit data)"
  shows "substr data 4 (scan_digits data 4 - 4) = Inr (drop 4 (takeWhile isdigit data))"
proof -
  have len: "4 \<le> length data"
    using assms length_takeWhile_le [of isdigit data] by linarith
  have "take (length (takeWhile isdigit (drop 4 data))) (drop 4 data) = takeWhile isdigit (drop 4 data)"
    by (metis takeWhile_eq_take)
  then show ?thesis
    using len assms by (simp add: substr_def scan_digits_eq takeWhile_drop_prefix)
qed

lemma ParsePacket_eq:
  "ParsePacket buf p =
    (let ld = takeWhile isdigit buf;
         p1 = p\<lparr>packetType := of_nat (digit_val (ld ! 0))\<rparr>;
         p2 = p1\<lparr>playerId := of_nat (digit_val (ld ! 1))\<rparr>;
         p3 = p2\<lparr>movementState := of_nat (digit_val (ld ! 2))\<rparr>;
         p4 = p3\<lparr>direction := of_nat (digit_val (ld ! 3))\<rparr>
     in if length ld = 0 then Inl (invalid_argument, p)
        else if length ld = 1 then Inl (invalid_argument, p1)
        else if length ld = 2 then Inl (invalid_argument, p2)
        else if length ld = 3 then Inl (invalid_argument, p3)
        else if length ld = 4 then Inl (invalid_argument, p4)
        else if ULONG_MAX < decimal 0 (drop 4 ld) then Inl (out_of_range, p4)
        else Inr (p4\<lparr>timestamp := of_nat (decimal 0 (drop 4 ld))\<rparr>))"
proof -
  define data where "data = c_str buf"
  define ld where "ld = takeWhile isdigit buf"
  have ld: "takeWhile isdigit data = ld"
    by (simp add: data_def ld_def takeWhile_isdigit_c_str)
  have at: "\<And>pos. pos < length ld \<Longrightarrow> stoi_substr data pos = Inr (int (digit_val (ld ! pos)))"
    using stoi_substr_leading [of _ data] by (simp add: ld)
  have fin: "stoi_substr data (length ld) = Inl invalid_argument"
    using stoi_substr_end [of data] by (simp add: ld)
  have ts: "4 \<le> length ld \<Longrightarrow> substr data 4 (scan_digits data 4 - 4) = Inr (drop 4 ld)"
    using timestamp_substr [of data] by (simp add: ld)
  have digs: "list_all isdigit (drop 4 ld)"
    unfolding ld_def list_all_iff by (metis in_set_dropD set_takeWhileD)
  consider "length ld = 0" | "length ld = 1" | "length ld = 2" | "length ld = 3"
    | "length ld = 4" | "5 \<le> length ld" by linarith
  then show ?thesis
  proof cases
    case 1
    with fin show ?thesis
      unfolding ParsePacket_def data_def [symmetric] ld_def [symmetric] by (auto simp: Let_def)
  next
    case 2
    with fin at [of 0] show ?thesis
      unfolding ParsePacket_def data_def [symmetric] ld_def [symmetric] by (auto simp: Let_def)
  next
    case 3
    with fin at [of 0] at [of 1] show ?thesis
      unfolding ParsePacket_def data_def [symmetric] ld_def [symmetric] by (auto simp: Let_def)
  next
    case 4
    with fin at [of 0] at [of 1] at [of 2] show ?thesis
      unfolding ParsePacket_def data_def [symmetric] ld_def [symmetric] by (auto simp: Let_def)
  next
    case 5
    with at [of 0] at [of 1] at [of 2] at [of 3] ts digs show ?thesis
      unfolding ParsePacket_def data_def [symmetric] ld_def [symmetric]
      by (auto simp: Let_def stoul_digits)
  next
    case 6
    then have ne: "drop 4 ld \<noteq> []" by auto
    from 6 at [of 0] at [of 1] at [of 2] at [of 3] ts digs ne show ?thesis
      unfolding ParsePacket_def data_def [symmetric] ld_def [symmetric]
      by (auto simp: Let_def stoul_digits)
  qed
qed


lemma digit_char_isdigit: "d < 10 \<Longrightarrow> isdigit (digit_char d)"
  by (simp add: isdigit_def digit_char_def)

lemma digit_val_digit_char: "d < 10 \<Longrightarrow> digit_val (digit_char d) = d"
  by (simp add: digit_val_def digit_char_def)

lemma to_string_single: "n < 10 \<Longrightarrow> to_string n = [digit_char n]"
  by (subst to_string.simps) simp

lemma to_string_isdigit: "list_all isdigit (to_string n)"
proof (induction n rule: to_string.induct)
  case (1 n)
  show ?case
  proof (cases "n < 10")
    case True
    then show ?thesis by (simp add: to_string_single digit_char_isdigit)
  next
    case False
    with 1 show ?thesis
      by (subst to_string.simps) (simp add: digit_char_isdigit)
  qed
qed

lemma to_string_nonempty: "to_string n \<noteq> []"
  by (subst to_string.simps) simp

lemma decimal_append: "decimal acc (cs @ ds) = decimal (decimal acc cs) ds"
  by (induction cs arbitrary: acc) simp_all

lemma decimal_to_string: "decimal 0 (to_string n) = n"
proof (induction n rule: to_string.induct)
  case (1 n)
  show ?case
  proof (cases "n < 10")
    case True
    then show ?thesis by (simp add: to_string_single digit_val_digit_char)
  next
    case False
    with 1 have "decimal 0 (to_string (n div 10)) = n div 10" by simp
    with False show ?thesis
      by (subst to_string.simps) (simp add: decimal_append digit_val_digit_char)
  qed
qed

lemma takeWhile_no_leading_digit: "no_leading_digit nm \<Longrightarrow> takeWhile isdigit nm = []"
  by (cases nm) (simp_all add: no_leading_digit_def)

lemma SendPacket_digits:
  assumes "single_digit (packetType p)" "single_digit (playerId p)"
    "single_digit (movementState p)" "single_digit (direction p)" "no_leading_digit nm"
  shows "takeWhile isdigit (SendPacket nm p) =
           [digit_char (unat (packetType p)), digit_char (unat (playerId p)),
            digit_char (unat (movementState p)), digit_char (unat (direction p))]
           @ to_string (unat (timestamp p))"
proof -
  have "takeWhile isdigit (to_string (unat (timestamp p)) @ nm) = to_string (unat (timestamp p))"
    using to_string_isdigit [of "unat (timestamp p)"] assms(5)
    by (simp add: list_all_iff takeWhile_no_leading_digit)
  then show ?thesis
    using assms(1-4)
    by (simp add: SendPacket_def single_digit_def to_string_single digit_char_isdigit)
qed

text \<open>
  Claim C1, as amended. For every packet whose packetType, playerId, movementState and
  direction are single decimal digits, and every process name that does not start with a
  decimal digit, decoding the datagram that \<open>SendPacket\<close> builds succeeds and assigns
  to the output packet exactly the five numeric fields of the packet sent (the timestamp
  is any unsigned 32-bit integer). The name of the output packet is the one it had before
  the call: the bytes of the name are the sender's process-wide \<open>name\<close>, and
  \<open>ParsePacket\<close> does not read them.
\<close>

theorem C1_roundtrip_numeric_fields:
  assumes "single_digit (packetType p)" and "single_digit (playerId p)"
    and "single_digit (movementState p)" and "single_digit (direction p)"
    and "no_leading_digit nm"
  shows "ParsePacket (SendPacket nm p) q =
           Inr (q\<lparr>packetType := packetType p, playerId := playerId p,
                  movementState := movementState p, direction := direction p,
                  timestamp := timestamp p\<rparr>)"
proof -
  have ts: "decimal 0 (to_string (unat (timestamp p))) = unat (timestamp p)"
    by (rule decimal_to_string)
  have small: "\<not> ULONG_MAX < unat (timestamp p)"
    using unsigned_less [of "timestamp p", where 'a = nat] by (simp add: ULONG_MAX_def)
  have ne: "to_string (unat (timestamp p)) \<noteq> []"
    by (rule to_string_nonempty)
  show ?thesis
    using assms(1-4) ne small
    by (simp add: ParsePacket_eq SendPacket_digits [OF assms] Let_def ts
        single_digit_def digit_val_digit_char)
qed

theorem C1_roundtrip_witness:
  "single_digit (0 :: 8 word) \<and> single_digit (2 :: 16 word) \<and> single_digit (1 :: 8 word)
   \<and> single_digit (5 :: 8 word) \<and> no_leading_digit ''bob''
   \<and> SendPacket ''bob'' \<lparr>packetType = 0, playerId = 2, movementState = 1, direction = 5,
         timestamp = 12345, name = ''bob''\<rparr> = ''021512345bob''
   \<and> ParsePacket ''021512345bob''
         \<lparr>packetType = 9, playerId = 9, movementState = 9, direction = 9, timestamp = 9, name = ''amy''\<rparr>
       = Inr \<lparr>packetType = 0, playerId = 2, movementState = 1, direction = 5,
              timestamp = 12345, name = ''amy''\<rparr>"
proof -
  let ?p = "\<lparr>packetType = 0, playerId = 2, movementState = 1, direction = 5,
         timestamp = 12345, name = ''bob''\<rparr>"
  let ?q = "\<lparr>packetType = 9, playerId = 9, movementState = 9, direction = 9, timestamp = 9, name = ''amy''\<rparr>"
  have h: "single_digit (packetType ?p)" "single_digit (playerId ?p)"
    "single_digit (movementState ?p)" "single_digit (direction ?p)" "no_leading_digit ''bob''"
    by (simp_all add: single_digit_def no_leading_digit_def isdigit_def)
  have w: "SendPacket ''bob'' ?p = ''021512345bob''"
    by code_simp
  from C1_roundtrip_numeric_fields [OF h, of ?q] w h show ?thesis
    by simp
qed

text \<open>
  The claim as first stated fails: decoding into a packet with an empty name the datagram
  built for the packet named bob does not give that packet back, since the name is not
  decoded.
\<close>

theorem C1_name_not_decoded:
  "ParsePacket
     (SendPacket ''bob'' \<lparr>packetType = 0, playerId = 2, movementState = 1, direction = 5,
                         timestamp = 12345, name = ''bob''\<rparr>)
     \<lparr>packetType = 0, playerId = 0, movementState = 0, direction = 0, timestamp = 0, name = []\<rparr>
   \<noteq> Inr \<lparr>packetType = 0, playerId = 2, movementState = 1, direction = 5,
           timestamp = 12345, name = ''bob''\<rparr>"
  by code_simp

lemma takeWhile_take_ge:
  "length (takeWhile P xs) \<le> n \<Longrightarrow> takeWhile P (take n xs) = takeWhile P xs"
proof (induction xs arbitrary: n)
  case Nil
  then show ?case by simp
next
  case (Cons a xs)
  then show ?case by (cases n) (auto split: if_splits)
qed

lemma nameStart_of_ge: "leading_digits buf \<le> nameStart_of buf"
proof (cases "4 \<le> leading_digits buf")
  case True
  then have "takeWhile isdigit (drop 4 (c_str buf)) = drop 4 (takeWhile isdigit buf)"
    using takeWhile_drop_prefix [of 4 isdigit "c_str buf"]
    by (simp add: leading_digits_def takeWhile_isdigit_c_str)
  with True show ?thesis
    by (simp add: nameStart_of_def scan_digits_eq leading_digits_def)
next
  case False
  then show ?thesis
    by (simp add: nameStart_of_def scan_digits_eq)
qed

lemma name_ParsePacket: "name (packet_after (ParsePacket buf p)) = name p"
  by (simp add: ParsePacket_eq packet_after_def Let_def)

text \<open>
  Claim C10. Whatever the buffer, and whether the call returns or throws, \<open>ParsePacket\<close>
  leaves the name of the output packet as it was before the call; and the bytes of the
  buffer after the timestamp digits have no effect: the call on the buffer cut at the
  end of the timestamp digits has the same outcome.
\<close>

theorem C10_name_kept_and_tail_ignored:
  "name (packet_after (ParsePacket buf p)) = name p
   \<and> ParsePacket (take (nameStart_of buf) buf) p = ParsePacket buf p"
proof -
  have "takeWhile isdigit (take (nameStart_of buf) buf) = takeWhile isdigit buf"
    using nameStart_of_ge [of buf] by (simp add: takeWhile_take_ge leading_digits_def)
  then have "ParsePacket (take (nameStart_of buf) buf) p = ParsePacket buf p"
    by (simp add: ParsePacket_eq)
  then show ?thesis
    by (simp add: name_ParsePacket)
qed

theorem C10_witness:
  "name (packet_after (ParsePacket ''021512345bob''
      \<lparr>packetType = 9, playerId = 9, movementState = 9, direction = 9, timestamp = 9, name = ''amy''\<rparr>))
     = ''amy''
   \<and> ParsePacket (take (nameStart_of ''021512345bob'') ''021512345bob'')
         \<lparr>packetType = 9, playerId = 9, movementState = 9, direction = 9, timestamp = 9, name = ''amy''\<rparr>
       = ParsePacket ''021512345bob''
         \<lparr>packetType = 9, playerId = 9, movementState = 9, direction = 9, timestamp = 9, name = ''amy''\<rparr>"
  using C10_name_kept_and_tail_ignored [of "''021512345bob''"
      "\<lparr>packetType = 9, playerId = 9, movementState = 9, direction = 9, timestamp = 9, name = ''amy''\<rparr>"]
  by simp

section \<open>Properties of the receiver\<close>

lemma failed_ParsePacket_iff:
  "failed (ParsePacket buf p) \<longleftrightarrow>
     leading_digits buf < 4 \<or> \<not> parseable_u32 (timestamp_portion buf)"
proof (cases "4 \<le> leading_digits buf")
  case True
  then have tp: "timestamp_portion buf = drop 4 (takeWhile isdigit buf)"
    by (simp add: timestamp_portion_def leading_digits_def takeWhile_drop_prefix)
  from True show ?thesis
    by (auto simp: ParsePacket_eq Let_def failed_def tp parseable_u32_def leading_digits_def
        ULONG_MAX_def)
next
  case False
  then consider "length (takeWhile isdigit buf) = 0" | "length (takeWhile isdigit buf) = 1"
    | "length (takeWhile isdigit buf) = 2" | "length (takeWhile isdigit buf) = 3"
    unfolding leading_digits_def by linarith
  then have "failed (ParsePacket buf p)"
    by cases (simp_all add: ParsePacket_eq Let_def failed_def)
  with False show ?thesis by simp
qed

lemma receive_datagram_failed:
  assumes "0 < n" and "failed (ParsePacket buf (lastPacket s))"
  shows "failed (receive_datagram s (n, buf))"
    and "receiver_state (receive_datagram s (n, buf)) =
           s\<lparr>lastPacket := packet_after (ParsePacket buf (lastPacket s))\<rparr>"
  using assms
  by (auto simp: receive_datagram_def failed_def receiver_state_def packet_after_def
      split: sum.splits prod.splits)

lemma receiver_loop_failed:
  assumes "failed (receive_datagram s d)"
  shows "receiver_loop s (d # rest) = receive_datagram s d"
  using assms by (auto simp: failed_def split: sum.splits)

text \<open>
  Claim C3, as amended. Decoding a received buffer fails exactly when the buffer has
  fewer than 4 leading decimal-digit bytes or its timestamp portion is not the decimal
  form of an unsigned 32-bit integer. The failure is an exception that nothing catches:
  the receiver ends with it whatever datagrams follow, the cached movementState is left
  unchanged, and lastPacket is left as \<open>ParsePacket\<close> had it when it threw (the fields
  decoded before the failure are overwritten).
\<close>

theorem C3_failure_condition_and_uncaught:
  "(failed (ParsePacket buf p) \<longleftrightarrow>
      leading_digits buf < 4 \<or> \<not> parseable_u32 (timestamp_portion buf))
   \<and> (0 < n \<and> failed (ParsePacket buf (lastPacket s)) \<longrightarrow>
        failed (receiver_loop s ((n, buf) # rest))
        \<and> receiver_state (receiver_loop s ((n, buf) # rest))
            = s\<lparr>lastPacket := packet_after (ParsePacket buf (lastPacket s))\<rparr>
        \<and> movementState_m (receiver_state (receiver_loop s ((n, buf) # rest)))
            = movementState_m s)"
proof (intro conjI impI)
  show "failed (ParsePacket buf p) \<longleftrightarrow>
      leading_digits buf < 4 \<or> \<not> parseable_u32 (timestamp_portion buf)"
    by (rule failed_ParsePacket_iff)
next
  assume a: "0 < n \<and> failed (ParsePacket buf (lastPacket s))"
  then have f: "failed (receive_datagram s (n, buf))"
    and st: "receiver_state (receive_datagram s (n, buf)) =
           s\<lparr>lastPacket := packet_after (ParsePacket buf (lastPacket s))\<rparr>"
    using receive_datagram_failed [of n buf s] by simp_all
  have eq: "receiver_loop s ((n, buf) # rest) = receive_datagram s (n, buf)"
    using f by (rule receiver_loop_failed)
  show "failed (receiver_loop s ((n, buf) # rest))"
    using f eq by simp
  show "receiver_state (receiver_loop s ((n, buf) # rest))
            = s\<lparr>lastPacket := packet_after (ParsePacket buf (lastPacket s))\<rparr>"
    using st eq by simp
  then show "movementState_m (receiver_state (receiver_loop s ((n, buf) # rest)))
            = movementState_m s"
    by simp
qed

lemma leading_digits_12: "leading_digits ''12'' = 2"
  by (simp add: leading_digits_def isdigit_def)

lemma ParsePacket_12:
  "ParsePacket ''12'' \<lparr>packetType = 0, playerId = 0, movementState = 0, direction = 0,
                        timestamp = 0, name = []\<rparr>
     = Inl (invalid_argument,
            \<lparr>packetType = 1, playerId = 2, movementState = 0, direction = 0,
             timestamp = 0, name = []\<rparr>)"
  by code_simp

lemma lastPacket_built_app:
  "lastPacket (built_app dx i nm) =
     \<lparr>packetType = 0, playerId = 0, movementState = 0, direction = 0, timestamp = 0, name = []\<rparr>"
  by (simp add: built_app_def)

theorem C3_witness:
  "leading_digits ''12'' < 4
   \<and> failed (ParsePacket ''12'' (lastPacket (built_app dx_sample 1 ''bob'')))
   \<and> failed (receiver_loop (built_app dx_sample 1 ''bob'') [(2, ''12''), (12, ''021512345bob'')])
   \<and> movementState_m (receiver_state
        (receiver_loop (built_app dx_sample 1 ''bob'') [(2, ''12''), (12, ''021512345bob'')])) = 0
   \<and> packetType (lastPacket (receiver_state
        (receiver_loop (built_app dx_sample 1 ''bob'') [(2, ''12''), (12, ''021512345bob'')]))) = 1"
proof -
  let ?s = "built_app dx_sample 1 ''bob''"
  have ld: "leading_digits ''12'' < 4"
    by (simp add: leading_digits_12)
  note t = C3_failure_condition_and_uncaught [of "''12''" "lastPacket ?s" 2 ?s "[(12, ''021512345bob'')]"]
  from t ld have f: "failed (ParsePacket ''12'' (lastPacket ?s))"
    by blast
  have m: "movementState_m ?s = 0"
    by (simp add: built_app_def)
  from t f ld m show ?thesis
    by (simp add: lastPacket_built_app ParsePacket_12 packet_after_def)
qed

text \<open>
  The claim as first stated fails: a two-byte datagram ends the receiver although a
  well-formed datagram follows, and it has changed lastPacket.
\<close>

theorem C3_exception_ends_receiver:
  "failed (receiver_loop (built_app dx_sample 1 ''bob'') [(2, ''12''), (12, ''021512345bob'')])
   \<and> lastPacket (receiver_state
        (receiver_loop (built_app dx_sample 1 ''bob'') [(2, ''12''), (12, ''021512345bob'')]))
      = \<lparr>packetType = 1, playerId = 2, movementState = 0, direction = 0, timestamp = 0, name = []\<rparr>
   \<and> lastPacket (built_app dx_sample 1 ''bob'')
      = \<lparr>packetType = 0, playerId = 0, movementState = 0, direction = 0, timestamp = 0, name = []\<rparr>"
  by (simp add: receive_datagram_def lastPacket_built_app ParsePacket_12 failed_def
      receiver_state_def)

lemma packetQueue_receive_datagram:
  "packetQueue (receiver_state (receive_datagram s d)) = packetQueue s"
  by (auto simp: receive_datagram_def receiver_state_def split: sum.splits prod.splits)

lemma packetQueue_receiver_loop:
  "packetQueue (receiver_state (receiver_loop s ds)) = packetQueue s"
proof (induction ds arbitrary: s)
  case Nil
  then show ?case by (simp add: receiver_state_def)
next
  case (Cons d ds)
  show ?case
  proof (cases "receive_datagram s d")
    case (Inl e)
    with packetQueue_receive_datagram [of s d] show ?thesis by simp
  next
    case (Inr s')
    with packetQueue_receive_datagram [of s d] Cons [of s'] show ?thesis
      by (simp add: receiver_state_def)
  qed
qed

lemma receiver_loop_append:
  "receiver_loop s (ds @ es) =
     (case receiver_loop s ds of Inl e \<Rightarrow> Inl e | Inr s' \<Rightarrow> receiver_loop s' es)"
  by (induction ds arbitrary: s) (auto split: sum.splits)

lemma receive_datagram_ok:
  assumes "0 < n" and "ParsePacket buf (lastPacket s) = Inr p"
  shows "lastPacket (receiver_state (receive_datagram s (n, buf))) = p"
  using assms by (simp add: receive_datagram_def receiver_state_def)

lemma set_pq_push: "set (pq_push cmp v q) = insert v (set q)"
  by (induction q) auto

lemma length_pq_push: "length (pq_push cmp v q) = Suc (length q)"
  by (induction q) auto

lemma sorted_pq_push:
  "sorted_wrt (\<lambda>a b. timestamp a \<le> timestamp b) q \<Longrightarrow>
     sorted_wrt (\<lambda>a b. timestamp a \<le> timestamp b) (pq_push packetComparator v q)"
  by (induction q) (auto simp: packetComparator_def set_pq_push)

lemma push_all_props:
  "sorted_wrt (\<lambda>a b. timestamp a \<le> timestamp b) q \<Longrightarrow>
     sorted_wrt (\<lambda>a b. timestamp a \<le> timestamp b) (push_all ps q)
     \<and> set (push_all ps q) = set ps \<union> set q
     \<and> length (push_all ps q) = length ps + length q"
  unfolding push_all_def
  by (induction ps arbitrary: q) (auto simp: sorted_pq_push set_pq_push length_pq_push)

text \<open>
  Claim C2, as amended. The receiver never pushes to the packet queue nor pops from it:
  the queue is after any sequence of datagrams what it was before. Received packets are
  consumed in arrival order: a datagram that decodes is stored in lastPacket, whatever
  the timestamps of the datagrams before it. The comparator of the queue orders by
  timestamp: a queue filled with any packets in any order holds them in non-decreasing
  timestamp order from the top, so its top has a timestamp less than or equal to that of
  every packet left after the pop.
\<close>

theorem C2_arrival_order_and_comparator:
  "packetQueue (receiver_state (receiver_loop s ds)) = packetQueue s
   \<and> (receiver_loop s ds = Inr s' \<and> 0 < n \<and> ParsePacket buf (lastPacket s') = Inr p \<longrightarrow>
        lastPacket (receiver_state (receiver_loop s (ds @ [(n, buf)]))) = p)
   \<and> sorted_wrt (\<lambda>a b. timestamp a \<le> timestamp b) (push_all ps [])
   \<and> set (push_all ps []) = set ps
   \<and> length (push_all ps []) = length ps
   \<and> (pq_top (push_all ps []) = Some t \<longrightarrow>
        list_all (\<lambda>u. timestamp t \<le> timestamp u) (pq_pop (push_all ps [])))"
proof (intro conjI impI)
  show "packetQueue (receiver_state (receiver_loop s ds)) = packetQueue s"
    by (rule packetQueue_receiver_loop)
next
  assume "receiver_loop s ds = Inr s' \<and> 0 < n \<and> ParsePacket buf (lastPacket s') = Inr p"
  then show "lastPacket (receiver_state (receiver_loop s (ds @ [(n, buf)]))) = p"
    using receive_datagram_ok [of n buf s' p]
    by (auto simp: receiver_loop_append split: sum.splits)
next
  have p: "sorted_wrt (\<lambda>a b. timestamp a \<le> timestamp b) (push_all ps [])
     \<and> set (push_all ps []) = set ps \<union> set []
     \<and> length (push_all ps []) = length ps + length ([] :: Packet list)"
    by (rule push_all_props) simp
  from p show "sorted_wrt (\<lambda>a b. timestamp a \<le> timestamp b) (push_all ps [])" by simp
  from p show "set (push_all ps []) = set ps" by simp
  from p show "length (push_all ps []) = length ps" by simp
  assume "pq_top (push_all ps []) = Some t"
  with p show "list_all (\<lambda>u. timestamp t \<le> timestamp u) (pq_pop (push_all ps []))"
    by (cases "push_all ps []") (auto simp: pq_top_def pq_pop_def list_all_iff)
qed

lemma ParsePacket_200:
  "ParsePacket ''0211200'' \<lparr>packetType = 0, playerId = 0, movementState = 0, direction = 0,
                        timestamp = 0, name = []\<rparr>
     = Inr \<lparr>packetType = 0, playerId = 2, movementState = 1, direction = 1,
             timestamp = 200, name = []\<rparr>"
  by code_simp

lemma ParsePacket_100:
  "ParsePacket ''0200100'' \<lparr>packetType = 0, playerId = 2, movementState = 1, direction = 1,
             timestamp = 200, name = []\<rparr>
     = Inr \<lparr>packetType = 0, playerId = 2, movementState = 0, direction = 0,
             timestamp = 100, name = []\<rparr>"
  by code_simp

lemma receive_200:
  "receiver_loop (built_app dx_sample 1 ''bob'') [(7, ''0211200'')]
     = Inr ((built_app dx_sample 1 ''bob'')
             \<lparr>lastPacket := \<lparr>packetType = 0, playerId = 2, movementState = 1, direction = 1,
                              timestamp = 200, name = []\<rparr>,
              movementState_m := 1\<rparr>)"
  by (simp add: receive_datagram_def lastPacket_built_app ParsePacket_200)

theorem C2_witness:
  "receiver_loop (built_app dx_sample 1 ''bob'') [(7, ''0211200'')]
     = Inr ((built_app dx_sample 1 ''bob'')
             \<lparr>lastPacket := \<lparr>packetType = 0, playerId = 2, movementState = 1, direction = 1,
                              timestamp = 200, name = []\<rparr>,
              movementState_m := 1\<rparr>)
   \<and> timestamp (lastPacket (receiver_state
      (receiver_loop (built_app dx_sample 1 ''bob'') ([(7, ''0211200'')] @ [(7, ''0200100'')])))) = 100
   \<and> pq_top (push_all
        [\<lparr>packetType = 0, playerId = 2, movementState = 1, direction = 1, timestamp = 200, name = []\<rparr>,
         \<lparr>packetType = 0, playerId = 2, movementState = 0, direction = 0, timestamp = 100, name = []\<rparr>] [])
       = Some \<lparr>packetType = 0, playerId = 2, movementState = 0, direction = 0, timestamp = 100, name = []\<rparr>
   \<and> list_all (\<lambda>u. (100 :: 32 word) \<le> timestamp u) (pq_pop (push_all
        [\<lparr>packetType = 0, playerId = 2, movementState = 1, direction = 1, timestamp = 200, name = []\<rparr>,
         \<lparr>packetType = 0, playerId = 2, movementState = 0, direction = 0, timestamp = 100, name = []\<rparr>] []))"
proof -
  let ?s = "built_app dx_sample 1 ''bob''"
  let ?s' = "?s\<lparr>lastPacket := \<lparr>packetType = 0, playerId = 2, movementState = 1, direction = 1,
                              timestamp = 200, name = []\<rparr>, movementState_m := 1\<rparr>"
  let ?p100 = "\<lparr>packetType = 0, playerId = 2, movementState = 0, direction = 0, timestamp = 100, name = []\<rparr>"
  let ?ps = "[\<lparr>packetType = 0, playerId = 2, movementState = 1, direction = 1, timestamp = 200, name = []\<rparr>, ?p100]"
  have top: "pq_top (push_all ?ps []) = Some ?p100"
    by (simp add: push_all_def pq_top_def packetComparator_def)
  have pp: "ParsePacket ''0200100'' (lastPacket ?s') = Inr ?p100"
    by (simp add: ParsePacket_100)
  note t = C2_arrival_order_and_comparator [of ?s "[(7, ''0211200'')]" ?s' 7 "''0200100''" ?p100 ?ps ?p100]
  from t receive_200 pp top show ?thesis
    by simp
qed

text \<open>
  The claim as first stated fails: of two packets arriving with timestamps 200 and then
  100, the integrator is given the one stamped 200 first and the one stamped 100 second,
  and the queue stays empty.
\<close>

theorem C2_consumed_in_arrival_order:
  "timestamp (lastPacket (receiver_state
      (receiver_loop (built_app dx_sample 1 ''bob'') [(7, ''0211200'')]))) = 200
   \<and> timestamp (lastPacket (receiver_state
      (receiver_loop (built_app dx_sample 1 ''bob'') [(7, ''0211200''), (7, ''0200100'')]))) = 100
   \<and> packetQueue (receiver_state
      (receiver_loop (built_app dx_sample 1 ''bob'') [(7, ''0211200''), (7, ''0200100'')])) = []"
  by (simp add: receive_datagram_def lastPacket_built_app ParsePacket_200 ParsePacket_100
      receiver_state_def built_app_def)

section \<open>Properties of the movement\<close>

subsection \<open>What UpdateSkullWorldMatrix leaves alone\<close>

lemma UpdateSkullWorldMatrix_frame:
  "skull1 (UpdateSkullWorldMatrix dx pos a b c s) = skull1 s"
  "skull2 (UpdateSkullWorldMatrix dx pos a b c s) = skull2 s"
  "lastPacket (UpdateSkullWorldMatrix dx pos a b c s) = lastPacket s"
  "movementState_m (UpdateSkullWorldMatrix dx pos a b c s) = movementState_m s"
  "id_g (UpdateSkullWorldMatrix dx pos a b c s) = id_g s"
  "player (UpdateSkullWorldMatrix dx pos a b c s) = player s"
  by (simp_all add: UpdateSkullWorldMatrix_def Let_def)

lemma switch_direction_axes:
  "switch_direction dir dt p = \<lparr>x = x p + axis_x dir * dt, y = y p + axis_y dir * dt, z = z p\<rparr>"
  by (simp add: switch_direction_def axis_x_def axis_y_def)

lemma MathHelper_Max_max: "MathHelper_Max a b = max a b"
  by (simp add: MathHelper_Max_def max_def)

lemma UpdatePosition_packet_moving:
  assumes "movementState p = 1" and "uint (playerId p) \<noteq> id_g s"
  shows "remote_actor (playerId p) (UpdatePosition_packet dx p dt s)
           = translate_clamped (direction p) dt (remote_actor (playerId p) s)"
    and "lastPacket (UpdatePosition_packet dx p dt s) = p"
    and "movementState_m (UpdatePosition_packet dx p dt s) = movementState_m s"
    and "id_g (UpdatePosition_packet dx p dt s) = id_g s"
    and "player (UpdatePosition_packet dx p dt s) = player s"
  using assms
  by (simp_all add: UpdatePosition_packet_def Let_def remote_actor_def translate_clamped_def
      UpdateSkullWorldMatrix_frame switch_direction_axes MathHelper_Max_max)

lemma UpdatePosition_packet_other:
  assumes "movementState p = 1" and "uint (playerId p) \<noteq> id_g s"
  shows "playerId p = 1 \<Longrightarrow> skull2 (UpdatePosition_packet dx p dt s) = skull2 s"
    and "playerId p \<noteq> 1 \<Longrightarrow> skull1 (UpdatePosition_packet dx p dt s) = skull1 s"
  using assms
  by (simp_all add: UpdatePosition_packet_def Let_def UpdateSkullWorldMatrix_frame)

lemma UpdatePosition_packet_still:
  assumes "\<not> (movementState p = 1 \<and> uint (playerId p) \<noteq> id_g s)"
  shows "skull1 (UpdatePosition_packet dx p dt s) = skull1 s"
    and "skull2 (UpdatePosition_packet dx p dt s) = skull2 s"
  using assms by (auto simp: UpdatePosition_packet_def)

lemma UpdatePosition_none_eq:
  "local_actor (UpdatePosition_none dx s) = (local_actor s)\<lparr>y := max (y (local_actor s)) 0\<rparr>"
  "player s = 1 \<Longrightarrow> skull2 (UpdatePosition_none dx s) = skull2 s"
  "player s \<noteq> 1 \<Longrightarrow> skull1 (UpdatePosition_none dx s) = skull1 s"
  "lastPacket (UpdatePosition_none dx s) = lastPacket s"
  "movementState_m (UpdatePosition_none dx s) = movementState_m s"
  "id_g (UpdatePosition_none dx s) = id_g s"
  "player (UpdatePosition_none dx s) = player s"
  by (simp_all add: UpdatePosition_none_def Let_def local_actor_def UpdateSkullWorldMatrix_frame
      MathHelper_Max_max)

lemma move_by_keys_y: "0 \<le> y (move_by_keys A D W S dt p)"
  by (simp add: move_by_keys_def Let_def MathHelper_Max_max)

lemma UpdatePosition_keys_alt:
  "UpdatePosition_keys dx A D W S dt s =
     (if id_g s = 2
      then UpdateSkullWorldMatrix dx (move_by_keys A D W S dt (local_actor s))
             (mSkullRitem_2 s) (mReflectedSkullRitem_2 s) (mShadowedSkullRitem_2 s)
             (if player s = 1 then s\<lparr>skull1 := move_by_keys A D W S dt (local_actor s)\<rparr>
              else s\<lparr>skull2 := move_by_keys A D W S dt (local_actor s)\<rparr>)
      else UpdateSkullWorldMatrix dx (move_by_keys A D W S dt (local_actor s))
             (mSkullRitem s) (mReflectedSkullRitem s) (mShadowedSkullRitem s)
             (if player s = 1 then s\<lparr>skull1 := move_by_keys A D W S dt (local_actor s)\<rparr>
              else s\<lparr>skull2 := move_by_keys A D W S dt (local_actor s)\<rparr>))"
proof -
  have "id_g (if player s = 1 then s\<lparr>skull1 := v\<rparr> else s\<lparr>skull2 := v\<rparr>) = id_g s" 
    and "mSkullRitem (if player s = 1 then s\<lparr>skull1 := v\<rparr> else s\<lparr>skull2 := v\<rparr>) = mSkullRitem s"
    and "mReflectedSkullRitem (if player s = 1 then s\<lparr>skull1 := v\<rparr> else s\<lparr>skull2 := v\<rparr>) = mReflectedSkullRitem s"
    and "mShadowedSkullRitem (if player s = 1 then s\<lparr>skull1 := v\<rparr> else s\<lparr>skull2 := v\<rparr>) = mShadowedSkullRitem s"
    and "mSkullRitem_2 (if player s = 1 then s\<lparr>skull1 := v\<rparr> else s\<lparr>skull2 := v\<rparr>) = mSkullRitem_2 s"
    and "mReflectedSkullRitem_2 (if player s = 1 then s\<lparr>skull1 := v\<rparr> else s\<lparr>skull2 := v\<rparr>) = mReflectedSkullRitem_2 s"
    and "mShadowedSkullRitem_2 (if player s = 1 then s\<lparr>skull1 := v\<rparr> else s\<lparr>skull2 := v\<rparr>) = mShadowedSkullRitem_2 s"
    for v by simp_all
  then show ?thesis
    by (simp only: UpdatePosition_keys_def move_by_keys_def local_actor_def Let_def)
qed

lemma UpdatePosition_keys_eq:
  "local_actor (UpdatePosition_keys dx A D W S dt s) = move_by_keys A D W S dt (local_actor s)"
  "player s = 1 \<Longrightarrow> skull2 (UpdatePosition_keys dx A D W S dt s) = skull2 s"
  "player s \<noteq> 1 \<Longrightarrow> skull1 (UpdatePosition_keys dx A D W S dt s) = skull1 s"
  by (simp_all add: UpdatePosition_keys_alt local_actor_def UpdateSkullWorldMatrix_frame)

lemma DetermineDirection_7: "DetermineDirection A D W S = 7 \<longleftrightarrow> S \<and> A \<and> \<not> W"
  by (cases A; cases D; cases W; cases S) (simp_all add: DetermineDirection_def)

text \<open>
  Claim C4, as amended. Direction code 7 means movement towards smaller x and smaller y.
  \<open>DetermineDirection\<close> returns 7 exactly when S and A are held and W is not (with W
  held too the earlier tests return 5 or 6). The movement integrator, given a packet with
  movementState 1 and direction 7 from another player, decrements the x of the remote
  actor by 1.0 dt and its y by 1.0 dt, the y then being clamped to at least 0; z is kept.
\<close>

theorem C4_direction_7:
  "(DetermineDirection A D W S = 7 \<longleftrightarrow> S \<and> A \<and> \<not> W)
   \<and> (movementState p = 1 \<and> direction p = 7 \<and> uint (playerId p) \<noteq> id_g s \<longrightarrow>
        x (remote_actor (playerId p) (UpdatePosition_packet dx p dt s))
          = x (remote_actor (playerId p) s) - 1.0 * dt
        \<and> y (remote_actor (playerId p) (UpdatePosition_packet dx p dt s))
          = max (y (remote_actor (playerId p) s) - 1.0 * dt) 0
        \<and> z (remote_actor (playerId p) (UpdatePosition_packet dx p dt s))
          = z (remote_actor (playerId p) s))"
proof (intro conjI impI)
  show "DetermineDirection A D W S = 7 \<longleftrightarrow> S \<and> A \<and> \<not> W"
    by (rule DetermineDirection_7)
next
  assume a: "movementState p = 1 \<and> direction p = 7 \<and> uint (playerId p) \<noteq> id_g s"
  then have r: "remote_actor (playerId p) (UpdatePosition_packet dx p dt s)
           = translate_clamped 7 dt (remote_actor (playerId p) s)"
    using UpdatePosition_packet_moving(1) [of p s dx dt] by simp
  show "x (remote_actor (playerId p) (UpdatePosition_packet dx p dt s))
          = x (remote_actor (playerId p) s) - 1.0 * dt"
    by (simp add: r translate_clamped_def axis_x_def)
  show "y (remote_actor (playerId p) (UpdatePosition_packet dx p dt s))
          = max (y (remote_actor (playerId p) s) - 1.0 * dt) 0"
    by (simp add: r translate_clamped_def axis_y_def)
  show "z (remote_actor (playerId p) (UpdatePosition_packet dx p dt s))
          = z (remote_actor (playerId p) s)"
    by (simp add: r translate_clamped_def)
qed

lemma built_app_fields:
  "skull1 (built_app dx i nm) = \<lparr>x = 0, y = 1, z = - 10\<rparr>"
  "skull2 (built_app dx i nm) = \<lparr>x = 5, y = 1, z = - 10\<rparr>"
  "id_g (built_app dx i nm) = i"
  "name_g (built_app dx i nm) = nm"
  "player (built_app dx i nm) = 1"
  "movementState_m (built_app dx i nm) = 0"
  "wasMoving (built_app dx i nm) = False"
  "prevDirection (built_app dx i nm) = 0"
  "packetQueue (built_app dx i nm) = []"
  by (simp_all add: built_app_def)

theorem C4_witness:
  "DetermineDirection True False False True = 7
   \<and> x (skull2 (UpdatePosition_packet dx_sample
          \<lparr>packetType = 0, playerId = 2, movementState = 1, direction = 7, timestamp = 100, name = []\<rparr>
          (1 / 10) (built_app dx_sample 1 ''bob''))) = 49 / 10
   \<and> y (skull2 (UpdatePosition_packet dx_sample
          \<lparr>packetType = 0, playerId = 2, movementState = 1, direction = 7, timestamp = 100, name = []\<rparr>
          (1 / 10) (built_app dx_sample 1 ''bob''))) = 9 / 10"
proof -
  let ?p = "\<lparr>packetType = 0, playerId = 2, movementState = 1, direction = 7, timestamp = 100, name = []\<rparr>"
  let ?s = "built_app dx_sample 1 ''bob''"
  have h: "movementState ?p = 1 \<and> direction ?p = 7 \<and> uint (playerId ?p) \<noteq> id_g ?s"
    by (simp add: built_app_fields)
  from C4_direction_7 [of True False False True ?p ?s dx_sample "1 / 10"] h
  show ?thesis
    by (simp add: remote_actor_def built_app_fields)
qed

text \<open>
  The claim as first stated fails: with A, W and S held the direction is 6, and an actor
  on the floor (y = 0) is not moved below it.
\<close>

theorem C4_three_keys_and_floor:
  "DetermineDirection True False True True = 6
   \<and> y (skull2 (UpdatePosition_packet dx_sample
          \<lparr>packetType = 0, playerId = 2, movementState = 1, direction = 7, timestamp = 100, name = []\<rparr>
          (1 / 10) ((built_app dx_sample 1 ''bob'')\<lparr>skull2 := \<lparr>x = 5, y = 0, z = - 10\<rparr>\<rparr>))) = 0"
proof -
  let ?p = "\<lparr>packetType = 0, playerId = 2, movementState = 1, direction = 7, timestamp = 100, name = []\<rparr>"
  let ?s = "(built_app dx_sample 1 ''bob'')\<lparr>skull2 := \<lparr>x = 5, y = 0, z = - 10\<rparr>\<rparr>"
  have "remote_actor (playerId ?p) (UpdatePosition_packet dx_sample ?p (1 / 10) ?s)
          = translate_clamped (direction ?p) (1 / 10) (remote_actor (playerId ?p) ?s)"
    by (rule UpdatePosition_packet_moving(1)) (simp_all add: built_app_fields)
  then show ?thesis
    by (simp add: remote_actor_def translate_clamped_def axis_y_def DetermineDirection_def)
qed

lemma ContinuousMovement_moving:
  assumes "movementState_m s = 1" and "movementState (lastPacket s) = 1"
    and "uint (playerId (lastPacket s)) \<noteq> id_g s"
  shows "remote_actor (playerId (lastPacket s)) (ContinuousMovement dx dt s)
           = translate_clamped (direction (lastPacket s)) dt (remote_actor (playerId (lastPacket s)) s)"
    and "lastPacket (ContinuousMovement dx dt s) = lastPacket s"
    and "movementState_m (ContinuousMovement dx dt s) = 1"
    and "id_g (ContinuousMovement dx dt s) = id_g s"
  using assms UpdatePosition_packet_moving [of "lastPacket s" s dx dt]
  by (simp_all add: ContinuousMovement_def)

lemma ticks_moving:
  assumes "movementState_m s = 1" and "movementState (lastPacket s) = 1"
    and "uint (playerId (lastPacket s)) \<noteq> id_g s"
  shows "remote_actor (playerId (lastPacket s)) (ticks dx dts s)
           = integrate (direction (lastPacket s)) dts (remote_actor (playerId (lastPacket s)) s)"
  using assms
proof (induction dts arbitrary: s)
  case Nil
  then show ?case by simp
next
  case (Cons dt dts)
  let ?s' = "ContinuousMovement dx dt s"
  note m = ContinuousMovement_moving [OF Cons.prems, of dx dt]
  have "remote_actor (playerId (lastPacket ?s')) (ticks dx dts ?s')
          = integrate (direction (lastPacket ?s')) dts (remote_actor (playerId (lastPacket ?s')) ?s')"
    using Cons.prems m by (intro Cons.IH) simp_all
  then show ?case
    by (simp add: m)
qed

lemma ContinuousMovement_stopped:
  assumes "movementState_m s = 0" and "0 \<le> y (local_actor s)"
  shows "skull1 (ContinuousMovement dx dt s) = skull1 s"
    and "skull2 (ContinuousMovement dx dt s) = skull2 s"
    and "movementState_m (ContinuousMovement dx dt s) = 0"
    and "player (ContinuousMovement dx dt s) = player s"
proof -
  have cm: "ContinuousMovement dx dt s = UpdatePosition_none dx s"
    using assms(1) by (simp add: ContinuousMovement_def)
  have la: "local_actor (UpdatePosition_none dx s) = local_actor s"
    using assms(2) by (simp add: UpdatePosition_none_eq(1))
  show "skull1 (ContinuousMovement dx dt s) = skull1 s"
    using la UpdatePosition_none_eq(3,7)
    by (cases "player s = 1") (simp_all add: cm local_actor_def)
  show "skull2 (ContinuousMovement dx dt s) = skull2 s"
    using la UpdatePosition_none_eq(2,7)
    by (cases "player s = 1") (simp_all add: cm local_actor_def)
  show "movementState_m (ContinuousMovement dx dt s) = 0"
    using assms(1) by (simp add: cm UpdatePosition_none_eq)
  show "player (ContinuousMovement dx dt s) = player s"
    by (simp add: cm UpdatePosition_none_eq)
qed

lemma ticks_stopped:
  assumes "movementState_m s = 0" and "0 \<le> y (local_actor s)"
  shows "skull1 (ticks dx dts s) = skull1 s \<and> skull2 (ticks dx dts s) = skull2 s"
  using assms
proof (induction dts arbitrary: s)
  case Nil
  then show ?case by simp
next
  case (Cons dt dts)
  note st = ContinuousMovement_stopped [OF Cons.prems, of dx dt]
  have "local_actor (ContinuousMovement dx dt s) = local_actor s"
    by (simp add: local_actor_def st)
  with Cons.prems st have
    "skull1 (ticks dx dts (ContinuousMovement dx dt s)) = skull1 (ContinuousMovement dx dt s)
     \<and> skull2 (ticks dx dts (ContinuousMovement dx dt s)) = skull2 (ContinuousMovement dx dt s)"
    by (intro Cons.IH) simp_all
  then show ?case by (simp add: st)
qed

lemma receive_datagram_Inr:
  assumes "receive_datagram s0 (n, buf) = Inr s" and "0 < n"
  shows "movementState_m s = (if movementState (lastPacket s) = 0 then 0 else 1)"
    and "id_g s = id_g s0" and "skull1 s = skull1 s0" and "skull2 s = skull2 s0"
    and "player s = player s0"
    and "ParsePacket buf (lastPacket s0) = Inr (lastPacket s)"
  using assms
  by (auto simp: receive_datagram_def split: sum.splits prod.splits if_splits)

text \<open>
  Claim C5, as amended. Once the receiver has processed a moving packet (movementState 1,
  playerId other than the process's own id), the remote actor after any number of ticks
  is where the specified integrator puts it: each tick translates it by 1.0 dt along the
  axes of the cached packet's direction and then clamps y to at least 0 (so a downward
  motion stops at the floor). Once the receiver has processed a stopped packet
  (movementState 0), no tick moves either actor, given that the local actor is not
  below the floor.
\<close>

theorem C5_sticky_integrator:
  assumes "receive_datagram s0 (n, buf) = Inr s" and "0 < n"
  shows "(movementState (lastPacket s) = 1 \<and> uint (playerId (lastPacket s)) \<noteq> id_g s \<longrightarrow>
            remote_actor (playerId (lastPacket s)) (ticks dx dts s)
              = integrate (direction (lastPacket s)) dts (remote_actor (playerId (lastPacket s)) s))
         \<and> (movementState (lastPacket s) = 0 \<and> 0 \<le> y (local_actor s) \<longrightarrow>
              skull1 (ticks dx dts s) = skull1 s \<and> skull2 (ticks dx dts s) = skull2 s)"
proof (rule conjI; rule impI)
  assume a: "movementState (lastPacket s) = 1 \<and> uint (playerId (lastPacket s)) \<noteq> id_g s"
  then have "movementState_m s = 1"
    using receive_datagram_Inr(1) [OF assms] by simp
  with a show "remote_actor (playerId (lastPacket s)) (ticks dx dts s)
              = integrate (direction (lastPacket s)) dts (remote_actor (playerId (lastPacket s)) s)"
    by (intro ticks_moving) simp_all
next
  assume a: "movementState (lastPacket s) = 0 \<and> 0 \<le> y (local_actor s)"
  then have "movementState_m s = 0"
    using receive_datagram_Inr(1) [OF assms] by simp
  with a show "skull1 (ticks dx dts s) = skull1 s \<and> skull2 (ticks dx dts s) = skull2 s"
    by (intro ticks_stopped) simp_all
qed


lemma ContinuousMovement_moving_frame:
  assumes "movementState_m s = 1" and "movementState (lastPacket s) = 1"
    and "uint (playerId (lastPacket s)) \<noteq> id_g s"
  shows "player (ContinuousMovement dx dt s) = player s"
    and "playerId (lastPacket s) \<noteq> 1 \<Longrightarrow> skull1 (ContinuousMovement dx dt s) = skull1 s"
  using assms UpdatePosition_packet_moving(5) [of "lastPacket s" s dx dt]
    UpdatePosition_packet_other(2) [of "lastPacket s" s dx dt]
  by (simp_all add: ContinuousMovement_def)

lemma ticks_moving_frame:
  assumes "movementState_m s = 1" and "movementState (lastPacket s) = 1"
    and "uint (playerId (lastPacket s)) \<noteq> id_g s" and "playerId (lastPacket s) \<noteq> 1"
  shows "lastPacket (ticks dx dts s) = lastPacket s \<and> player (ticks dx dts s) = player s
         \<and> skull1 (ticks dx dts s) = skull1 s"
  using assms
proof (induction dts arbitrary: s)
  case Nil
  then show ?case by simp
next
  case (Cons dt dts)
  let ?s' = "ContinuousMovement dx dt s"
  note m = ContinuousMovement_moving [OF Cons.prems(1-3), of dx dt]
    ContinuousMovement_moving_frame [OF Cons.prems(1-3), of dx dt]
  have "lastPacket (ticks dx dts ?s') = lastPacket ?s' \<and> player (ticks dx dts ?s') = player ?s'
         \<and> skull1 (ticks dx dts ?s') = skull1 ?s'"
    using Cons.prems m by (intro Cons.IH) simp_all
  then show ?case
    using Cons.prems(4) by (simp add: m)
qed

lemma ParsePacket_S4_moving:
  "ParsePacket ''0211100bob'' \<lparr>packetType = 0, playerId = 0, movementState = 0, direction = 0,
                        timestamp = 0, name = []\<rparr>
     = Inr \<lparr>packetType = 0, playerId = 2, movementState = 1, direction = 1,
             timestamp = 100, name = []\<rparr>"
  by code_simp

lemma ParsePacket_S4_stopped:
  "ParsePacket ''0200120bob'' \<lparr>packetType = 0, playerId = 2, movementState = 1, direction = 1,
             timestamp = 100, name = []\<rparr>
     = Inr \<lparr>packetType = 0, playerId = 2, movementState = 0, direction = 0,
             timestamp = 120, name = []\<rparr>"
  by code_simp

text \<open>
  The scenario of the specification: a packet of player 2 moving along +y, three ticks of
  0.1 s, then a stopped packet and two more ticks. Actor 2 advances by 0.3 in y and halts.
\<close>

theorem C5_witness:
  "receive_datagram (built_app dx_sample 1 ''bob'') (10, ''0211100bob'')
     = Inr ((built_app dx_sample 1 ''bob'')
         \<lparr>lastPacket := \<lparr>packetType = 0, playerId = 2, movementState = 1, direction = 1,
                          timestamp = 100, name = []\<rparr>, movementState_m := 1\<rparr>)
   \<and> skull2 (ticks dx_sample [1 / 10, 1 / 10, 1 / 10]
      ((built_app dx_sample 1 ''bob'')
         \<lparr>lastPacket := \<lparr>packetType = 0, playerId = 2, movementState = 1, direction = 1,
                          timestamp = 100, name = []\<rparr>, movementState_m := 1\<rparr>))
     = \<lparr>x = 5, y = 13 / 10, z = - 10\<rparr>
   \<and> skull2 (ticks dx_sample [1 / 10, 1 / 10]
      ((ticks dx_sample [1 / 10, 1 / 10, 1 / 10]
          ((built_app dx_sample 1 ''bob'')
             \<lparr>lastPacket := \<lparr>packetType = 0, playerId = 2, movementState = 1, direction = 1,
                              timestamp = 100, name = []\<rparr>, movementState_m := 1\<rparr>))
         \<lparr>lastPacket := \<lparr>packetType = 0, playerId = 2, movementState = 0, direction = 0,
                          timestamp = 120, name = []\<rparr>, movementState_m := 0\<rparr>))
     = \<lparr>x = 5, y = 13 / 10, z = - 10\<rparr>"
proof -
  let ?A = "built_app dx_sample 1 ''bob''"
  let ?S1 = "?A\<lparr>lastPacket := \<lparr>packetType = 0, playerId = 2, movementState = 1, direction = 1,
                          timestamp = 100, name = []\<rparr>, movementState_m := 1\<rparr>"
  let ?T1 = "ticks dx_sample [1 / 10, 1 / 10, 1 / 10] ?S1"
  let ?S2 = "?T1\<lparr>lastPacket := \<lparr>packetType = 0, playerId = 2, movementState = 0, direction = 0,
                          timestamp = 120, name = []\<rparr>, movementState_m := 0\<rparr>"
  have r1: "receive_datagram ?A (10, ''0211100bob'') = Inr ?S1"
    by (simp add: receive_datagram_def lastPacket_built_app ParsePacket_S4_moving)
  have f1: "lastPacket ?T1 = lastPacket ?S1 \<and> player ?T1 = player ?S1 \<and> skull1 ?T1 = skull1 ?S1"
    by (rule ticks_moving_frame) (simp_all add: built_app_fields)
  from C5_sticky_integrator [OF r1, of dx_sample "[1 / 10, 1 / 10, 1 / 10]"]
  have m: "skull2 ?T1 = \<lparr>x = 5, y = 13 / 10, z = - 10\<rparr>"
    by (simp add: built_app_fields remote_actor_def translate_clamped_def axis_x_def axis_y_def)
  have r2: "receive_datagram ?T1 (10, ''0200120bob'') = Inr ?S2"
    using f1 by (simp add: receive_datagram_def ParsePacket_S4_stopped)
  from C5_sticky_integrator [OF r2, of dx_sample "[1 / 10, 1 / 10]"] f1
  have "skull2 (ticks dx_sample [1 / 10, 1 / 10] ?S2) = skull2 ?S2"
    by (simp add: local_actor_def built_app_fields)
  with m r1 show ?thesis by simp
qed

lemma ParsePacket_down:
  "ParsePacket ''0212100bob'' \<lparr>packetType = 0, playerId = 0, movementState = 0, direction = 0,
                        timestamp = 0, name = []\<rparr>
     = Inr \<lparr>packetType = 0, playerId = 2, movementState = 1, direction = 2,
             timestamp = 100, name = []\<rparr>"
  by code_simp

text \<open>
  The claim as first stated fails: a remote actor on the floor that is sent downwards is
  not translated by the tick.
\<close>

theorem C5_floor_stops_translation:
  "y (skull2 ((built_app dx_sample 1 ''bob'')\<lparr>skull2 := \<lparr>x = 5, y = 0, z = - 10\<rparr>\<rparr>)) = 0
   \<and> y (skull2 (ticks dx_sample [1 / 10]
          (receiver_state (receive_datagram
             ((built_app dx_sample 1 ''bob'')\<lparr>skull2 := \<lparr>x = 5, y = 0, z = - 10\<rparr>\<rparr>)
             (10, ''0212100bob''))))) = 0"
proof -
  let ?E = "(built_app dx_sample 1 ''bob'')\<lparr>skull2 := \<lparr>x = 5, y = 0, z = - 10\<rparr>\<rparr>"
  let ?S = "?E\<lparr>lastPacket := \<lparr>packetType = 0, playerId = 2, movementState = 1, direction = 2,
             timestamp = 100, name = []\<rparr>, movementState_m := 1\<rparr>"
  have r: "receive_datagram ?E (10, ''0212100bob'') = Inr ?S"
    by (simp add: receive_datagram_def lastPacket_built_app ParsePacket_down)
  have "remote_actor (playerId (lastPacket ?S)) (ticks dx_sample [1 / 10] ?S)
          = integrate (direction (lastPacket ?S)) [1 / 10] (remote_actor (playerId (lastPacket ?S)) ?S)"
    by (rule ticks_moving) (simp_all add: built_app_fields)
  then show ?thesis
    by (simp add: r receiver_state_def remote_actor_def translate_clamped_def axis_y_def)
qed

lemma translate_clamped_y: "0 \<le> y (translate_clamped dir dt p)"
  by (simp add: translate_clamped_def)

lemma keys_keeps_nonneg:
  assumes "0 \<le> y (skull1 s)" and "0 \<le> y (skull2 s)"
  shows "0 \<le> y (skull1 (UpdatePosition_keys dx A D W S dt s))
         \<and> 0 \<le> y (skull2 (UpdatePosition_keys dx A D W S dt s))"
proof (cases "player s = 1")
  case True
  have "player (UpdatePosition_keys dx A D W S dt s) = 1"
    using True by (simp add: UpdatePosition_keys_alt UpdateSkullWorldMatrix_frame)
  then have "skull1 (UpdatePosition_keys dx A D W S dt s) = move_by_keys A D W S dt (local_actor s)"
    using UpdatePosition_keys_eq(1) [of dx A D W S dt s] by (simp add: local_actor_def)
  with True assms show ?thesis
    by (simp add: UpdatePosition_keys_eq move_by_keys_y)
next
  case False
  have "player (UpdatePosition_keys dx A D W S dt s) \<noteq> 1"
    using False by (simp add: UpdatePosition_keys_alt UpdateSkullWorldMatrix_frame)
  then have "skull2 (UpdatePosition_keys dx A D W S dt s) = move_by_keys A D W S dt (local_actor s)"
    using UpdatePosition_keys_eq(1) [of dx A D W S dt s] by (simp add: local_actor_def)
  with False assms show ?thesis
    by (simp add: UpdatePosition_keys_eq move_by_keys_y)
qed

lemma none_keeps_nonneg:
  assumes "0 \<le> y (skull1 s)" and "0 \<le> y (skull2 s)"
  shows "0 \<le> y (skull1 (UpdatePosition_none dx s))
         \<and> 0 \<le> y (skull2 (UpdatePosition_none dx s))"
proof (cases "player s = 1")
  case True
  then have "skull1 (UpdatePosition_none dx s) = (local_actor s)\<lparr>y := max (y (local_actor s)) 0\<rparr>"
    using UpdatePosition_none_eq(1,7) [of dx s] by (simp add: local_actor_def)
  with True assms show ?thesis
    by (simp add: UpdatePosition_none_eq)
next
  case False
  then have "skull2 (UpdatePosition_none dx s) = (local_actor s)\<lparr>y := max (y (local_actor s)) 0\<rparr>"
    using UpdatePosition_none_eq(1,7) [of dx s] by (simp add: local_actor_def)
  with False assms show ?thesis
    by (simp add: UpdatePosition_none_eq)
qed

lemma packet_keeps_nonneg:
  assumes "0 \<le> y (skull1 s)" and "0 \<le> y (skull2 s)"
  shows "0 \<le> y (skull1 (UpdatePosition_packet dx p dt s))
         \<and> 0 \<le> y (skull2 (UpdatePosition_packet dx p dt s))"
proof (cases "movementState p = 1 \<and> uint (playerId p) \<noteq> id_g s")
  case True
  then have r: "remote_actor (playerId p) (UpdatePosition_packet dx p dt s)
           = translate_clamped (direction p) dt (remote_actor (playerId p) s)"
    using UpdatePosition_packet_moving(1) [of p s dx dt] by simp
  show ?thesis
  proof (cases "playerId p = 1")
    case one: True
    with r have "skull1 (UpdatePosition_packet dx p dt s) = translate_clamped (direction p) dt (skull1 s)"
      by (simp add: remote_actor_def)
    with True one assms show ?thesis
      by (simp add: UpdatePosition_packet_other translate_clamped_y)
  next
    case other: False
    with r have "skull2 (UpdatePosition_packet dx p dt s) = translate_clamped (direction p) dt (skull2 s)"
      by (simp add: remote_actor_def)
    with True other assms show ?thesis
      by (simp add: UpdatePosition_packet_other translate_clamped_y)
  qed
next
  case False
  with assms show ?thesis
    by (simp add: UpdatePosition_packet_still)
qed

text \<open>
  Claim C7. After every integration step the position of the actor it integrates has
  y at least 0, whatever the state before: the local actor after the keyboard-driven step
  and after the step that only re-applies the transforms, the remote actor after the
  packet-driven step of a moving packet of another player (the only case in which that
  step integrates). Hence every step keeps y at least 0 for both actors.
\<close>

theorem C7_y_never_negative:
  "0 \<le> y (local_actor (UpdatePosition_keys dx A D W S dt s))
   \<and> 0 \<le> y (local_actor (UpdatePosition_none dx s))
   \<and> (movementState p = 1 \<and> uint (playerId p) \<noteq> id_g s \<longrightarrow>
        0 \<le> y (remote_actor (playerId p) (UpdatePosition_packet dx p dt s)))
   \<and> (0 \<le> y (skull1 s) \<and> 0 \<le> y (skull2 s) \<longrightarrow>
        0 \<le> y (skull1 (UpdatePosition_keys dx A D W S dt s))
        \<and> 0 \<le> y (skull2 (UpdatePosition_keys dx A D W S dt s))
        \<and> 0 \<le> y (skull1 (UpdatePosition_none dx s))
        \<and> 0 \<le> y (skull2 (UpdatePosition_none dx s))
        \<and> 0 \<le> y (skull1 (UpdatePosition_packet dx p dt s))
        \<and> 0 \<le> y (skull2 (UpdatePosition_packet dx p dt s))
        \<and> 0 \<le> y (skull1 (ContinuousMovement dx dt s))
        \<and> 0 \<le> y (skull2 (ContinuousMovement dx dt s)))"
proof -
  have k: "0 \<le> y (local_actor (UpdatePosition_keys dx A D W S dt s))"
    by (simp add: UpdatePosition_keys_eq move_by_keys_y)
  have n: "0 \<le> y (local_actor (UpdatePosition_none dx s))"
    by (simp add: UpdatePosition_none_eq)
  have r: "movementState p = 1 \<and> uint (playerId p) \<noteq> id_g s \<longrightarrow>
        0 \<le> y (remote_actor (playerId p) (UpdatePosition_packet dx p dt s))"
    using UpdatePosition_packet_moving(1) [of p s dx dt] by (simp add: translate_clamped_y)
  have i: "0 \<le> y (skull1 s) \<and> 0 \<le> y (skull2 s) \<longrightarrow>
        0 \<le> y (skull1 (UpdatePosition_keys dx A D W S dt s))
        \<and> 0 \<le> y (skull2 (UpdatePosition_keys dx A D W S dt s))
        \<and> 0 \<le> y (skull1 (UpdatePosition_none dx s))
        \<and> 0 \<le> y (skull2 (UpdatePosition_none dx s))
        \<and> 0 \<le> y (skull1 (UpdatePosition_packet dx p dt s))
        \<and> 0 \<le> y (skull2 (UpdatePosition_packet dx p dt s))
        \<and> 0 \<le> y (skull1 (ContinuousMovement dx dt s))
        \<and> 0 \<le> y (skull2 (ContinuousMovement dx dt s))"
    using keys_keeps_nonneg [of s dx A D W S dt] none_keeps_nonneg [of s dx]
      packet_keeps_nonneg [of s dx p dt] packet_keeps_nonneg [of s dx "lastPacket s" dt]
    by (simp add: ContinuousMovement_def)
  from k n r i show ?thesis by blast
qed

theorem C7_witness:
  "0 \<le> y (skull1 (built_app dx_sample 1 ''bob'')) \<and> 0 \<le> y (skull2 (built_app dx_sample 1 ''bob''))
   \<and> 0 \<le> y (skull1 (UpdatePosition_keys dx_sample False False False True 3 (built_app dx_sample 1 ''bob'')))
   \<and> 0 \<le> y (skull2 (UpdatePosition_packet dx_sample
        \<lparr>packetType = 0, playerId = 2, movementState = 1, direction = 2, timestamp = 100, name = []\<rparr>
        3 (built_app dx_sample 1 ''bob'')))"
proof -
  let ?s = "built_app dx_sample 1 ''bob''"
  let ?p = "\<lparr>packetType = 0, playerId = 2, movementState = 1, direction = 2, timestamp = 100, name = []\<rparr>"
  have h: "0 \<le> y (skull1 ?s) \<and> 0 \<le> y (skull2 ?s)"
    by (simp add: built_app_fields)
  from C7_y_never_negative [of dx_sample False False False True 3 ?s ?p] h
  show ?thesis by blast
qed

section \<open>Properties of the keyboard input\<close>

lemma OnKeyboardInput_release:
  assumes "wasMoving s" and "prevDirection s \<noteq> 0"
  shows "snd (OnKeyboardInput dx False False False False dt now_ms s)
           = [SendPacket (name_g s)
                \<lparr>packetType = 0, playerId = of_int (id_g s), movementState = 1,
                 direction = 0, timestamp = of_nat now_ms, name = []\<rparr>]"
  using assms by (simp add: OnKeyboardInput_def DetermineDirection_def Let_def)

lemma SendPacket_release_sample:
  "SendPacket ''bob'' \<lparr>packetType = 0, playerId = 1, movementState = 1,
                        direction = 0, timestamp = 12345, name = []\<rparr> = ''011012345bob''"
  by code_simp

lemma SendPacket_stop_sample:
  "SendPacket ''bob'' \<lparr>packetType = 0, playerId = 1, movementState = 0,
                        direction = 0, timestamp = 12345, name = []\<rparr> = ''010012345bob''"
  by code_simp

text \<open>
  Claim C6, evaluated where the code departs from it. The player had been moving with D
  held (previous direction 3) and now holds no key: the player just stopped moving. The
  new direction 0 differs from the previous one, so the branch for a changed direction
  runs, and the one datagram sent is that of the packet with movementState 1 and
  direction 0; the datagram of the packet with movementState 0 that the claim (and the
  branch the source writes for a stop) calls for is another one.
\<close>

theorem C6_release_sends_moving_packet:
  "snd (OnKeyboardInput dx_sample False False False False (1 / 10) 12345
          ((built_app dx_sample 1 ''bob'')\<lparr>prevDirection := 3, prevD := True, wasMoving := True\<rparr>))
     = [''011012345bob'']
   \<and> SendPacket ''bob'' \<lparr>packetType = 0, playerId = 1, movementState = 0,
                           direction = 0, timestamp = 12345, name = []\<rparr> = ''010012345bob''"
proof -
  let ?s = "(built_app dx_sample 1 ''bob'')\<lparr>prevDirection := 3, prevD := True, wasMoving := True\<rparr>"
  have "snd (OnKeyboardInput dx_sample False False False False (1 / 10) 12345 ?s)
           = [SendPacket (name_g ?s)
                \<lparr>packetType = 0, playerId = of_int (id_g ?s), movementState = 1,
                 direction = 0, timestamp = of_nat 12345, name = []\<rparr>]"
    by (rule OnKeyboardInput_release) simp_all
  then show ?thesis
    by (simp add: built_app_fields SendPacket_release_sample SendPacket_stop_sample)
qed

section \<open>Properties of the per-frame constants\<close>

lemma reflect_lights_eq:
  "i \<le> 3 \<Longrightarrow> reflect_lights dx R m i r =
     r\<lparr>Lights := (\<lambda>j. if i \<le> j \<and> j < 3
                        then (Lights r j)\<lparr>Direction := XMStoreFloat3
                               (XMVector3TransformNormal dx (XMLoadFloat3 (Direction (Lights m j))) R)\<rparr>
                        else Lights r j)\<rparr>"
proof (induction dx R m i r rule: reflect_lights.induct)
  case (1 dx R mainCB i reflectedCB)
  show ?case
  proof (cases "i < 3")
    case True
    then have "Suc i \<le> 3" by simp
    with 1 True show ?thesis
      by (subst reflect_lights.simps) (auto simp: Let_def fun_eq_iff)
  next
    case False
    with 1 show ?thesis
      by (subst reflect_lights.simps) (auto simp: fun_eq_iff)
  qed
qed

text \<open>
  Claim C9. In a tick, once \<open>UpdateMainPassCB\<close> and \<open>UpdateReflectedPassCB\<close> have run,
  slot 0 of the current frame resource's pass constants holds the main pass block and
  slot 1 holds a block that is the main pass block in every field, except that the
  direction of each of the lights 0, 1 and 2 is the main pass direction of that light
  transformed as a normal by the reflection matrix of the plane z = 0.
\<close>

theorem C9_reflected_pass_constants:
  assumes "mCurrFrameResourceIndex s < length (mFrameResources s)"
  shows "PassCB (mFrameResources (UpdateReflectedPassCB dx (UpdateMainPassCB dx cam gt s))
                   ! mCurrFrameResourceIndex s) 0
           = Some (mMainPassCB (UpdateReflectedPassCB dx (UpdateMainPassCB dx cam gt s)))
         \<and> PassCB (mFrameResources (UpdateReflectedPassCB dx (UpdateMainPassCB dx cam gt s))
                   ! mCurrFrameResourceIndex s) 1
           = Some (mReflectedPassCB (UpdateReflectedPassCB dx (UpdateMainPassCB dx cam gt s)))
         \<and> mReflectedPassCB (UpdateReflectedPassCB dx (UpdateMainPassCB dx cam gt s))
           = (mMainPassCB (UpdateReflectedPassCB dx (UpdateMainPassCB dx cam gt s)))
               \<lparr>Lights := (\<lambda>j. if j < 3
                   then (Lights (mMainPassCB (UpdateReflectedPassCB dx (UpdateMainPassCB dx cam gt s))) j)
                          \<lparr>Direction := reflected_direction dx (Direction
                             (Lights (mMainPassCB (UpdateReflectedPassCB dx (UpdateMainPassCB dx cam gt s))) j))\<rparr>
                   else Lights (mMainPassCB (UpdateReflectedPassCB dx (UpdateMainPassCB dx cam gt s))) j)\<rparr>"
proof -
  define s1 where "s1 = UpdateMainPassCB dx cam gt s"
  have idx: "mCurrFrameResourceIndex s1 = mCurrFrameResourceIndex s"
    and len: "length (mFrameResources s1) = length (mFrameResources s)"
    and slot0: "PassCB (mFrameResources s1 ! mCurrFrameResourceIndex s) 0 = Some (mMainPassCB s1)"
    using assms by (simp_all add: s1_def UpdateMainPassCB_def Let_def)
  have main: "mMainPassCB (UpdateReflectedPassCB dx s1) = mMainPassCB s1"
    by (simp add: UpdateReflectedPassCB_def Let_def)
  have refl: "mReflectedPassCB (UpdateReflectedPassCB dx s1)
          = reflect_lights dx (XMMatrixReflect dx (XMVectorSet 0 0 1 0)) (mMainPassCB s1) 0 (mMainPassCB s1)"
    by (simp add: UpdateReflectedPassCB_def Let_def)
  have slots: "PassCB (mFrameResources (UpdateReflectedPassCB dx s1) ! mCurrFrameResourceIndex s) 0
                 = Some (mMainPassCB s1)"
      "PassCB (mFrameResources (UpdateReflectedPassCB dx s1) ! mCurrFrameResourceIndex s) 1
                 = Some (mReflectedPassCB (UpdateReflectedPassCB dx s1))"
    using assms idx len slot0 by (simp_all add: UpdateReflectedPassCB_def Let_def)
  show ?thesis
    unfolding s1_def [symmetric] main reflected_direction_def
    using slots by (simp add: refl reflect_lights_eq)
qed

theorem C9_witness:
  "mCurrFrameResourceIndex (built_app dx_sample 1 ''bob'')
     < length (mFrameResources (built_app dx_sample 1 ''bob''))
   \<and> map_option (\<lambda>cb. Direction (Lights cb 0))
        (PassCB (mFrameResources (UpdateReflectedPassCB dx_sample (UpdateMainPassCB dx_sample
           \<lparr>GetView = Identity4x4, GetProj = Identity4x4, GetPosition3f = \<lparr>x = 0, y = 2, z = - 15\<rparr>\<rparr>
           \<lparr>gt_TotalTime = 1, gt_DeltaTime = 1 / 60\<rparr> (built_app dx_sample 1 ''bob''))) ! 0) 0)
       = Some \<lparr>x = 0.57735, y = - 0.57735, z = 0.57735\<rparr>
   \<and> map_option (\<lambda>cb. Direction (Lights cb 0))
        (PassCB (mFrameResources (UpdateReflectedPassCB dx_sample (UpdateMainPassCB dx_sample
           \<lparr>GetView = Identity4x4, GetProj = Identity4x4, GetPosition3f = \<lparr>x = 0, y = 2, z = - 15\<rparr>\<rparr>
           \<lparr>gt_TotalTime = 1, gt_DeltaTime = 1 / 60\<rparr> (built_app dx_sample 1 ''bob''))) ! 0) 1)
       = Some \<lparr>x = 0.57735, y = - 0.57735, z = - 0.57735\<rparr>
   \<and> map_option FarZ
        (PassCB (mFrameResources (UpdateReflectedPassCB dx_sample (UpdateMainPassCB dx_sample
           \<lparr>GetView = Identity4x4, GetProj = Identity4x4, GetPosition3f = \<lparr>x = 0, y = 2, z = - 15\<rparr>\<rparr>
           \<lparr>gt_TotalTime = 1, gt_DeltaTime = 1 / 60\<rparr> (built_app dx_sample 1 ''bob''))) ! 0) 1)
       = Some 1000"
proof -
  let ?A = "built_app dx_sample 1 ''bob''"
  let ?cam = "\<lparr>GetView = Identity4x4, GetProj = Identity4x4, GetPosition3f = \<lparr>x = 0, y = 2, z = - 15\<rparr>\<rparr>"
  let ?gt = "\<lparr>gt_TotalTime = 1, gt_DeltaTime = 1 / 60\<rparr>"
  let ?S = "UpdateReflectedPassCB dx_sample (UpdateMainPassCB dx_sample ?cam ?gt ?A)"
  have i: "mCurrFrameResourceIndex ?A = 0" and h: "mCurrFrameResourceIndex ?A < length (mFrameResources ?A)"
    by (simp_all add: built_app_def gNumFrameResources_def)
  have m: "Direction (Lights (mMainPassCB ?S) 0) = \<lparr>x = 0.57735, y = - 0.57735, z = 0.57735\<rparr>"
    and f: "FarZ (mMainPassCB ?S) = 1000"
    by (simp_all add: UpdateReflectedPassCB_def UpdateMainPassCB_def Let_def)
  have r: "reflected_direction dx_sample \<lparr>x = 0.57735, y = - 0.57735, z = 0.57735\<rparr>
             = \<lparr>x = 0.57735, y = - 0.57735, z = - 0.57735\<rparr>"
    by (simp add: reflected_direction_def dx_sample_def XMLoadFloat3_def XMStoreFloat3_def
        XMVectorSet_def)
  from C9_reflected_pass_constants [OF h, of dx_sample ?cam ?gt] i m f r h
  show ?thesis
    by simp
qed

lemma frame_item_simps:
  "ObjCBIndex (frame_item e) = ObjCBIndex e"
  "World (frame_item e) = World e"
  "TexTransform (frame_item e) = TexTransform e"
  "constants_of dx (frame_item e) = constants_of dx e"
  "NumFramesDirty (frame_item e) = (if NumFramesDirty e > 0 then NumFramesDirty e - 1 else NumFramesDirty e)"
  by (simp_all add: frame_item_def constants_of_def)

lemma loop_Cons:
  "UpdateObjectCBs_loop dx (e # es) cb =
     (frame_item e #
        fst (UpdateObjectCBs_loop dx es
               (if NumFramesDirty e > 0 then cb(ObjCBIndex e \<mapsto> constants_of dx e) else cb)),
      snd (UpdateObjectCBs_loop dx es
             (if NumFramesDirty e > 0 then cb(ObjCBIndex e \<mapsto> constants_of dx e) else cb)))"
  by (simp add: case_prod_beta Let_def frame_item_def constants_of_def)

lemma loop_items: "fst (UpdateObjectCBs_loop dx es cb) = map frame_item es"
  by (induction es arbitrary: cb) (simp_all add: loop_Cons del: UpdateObjectCBs_loop.simps(2))

lemma loop_untouched:
  "k \<notin> ObjCBIndex ` set es \<Longrightarrow> snd (UpdateObjectCBs_loop dx es cb) k = cb k"
  by (induction es arbitrary: cb) (simp_all add: loop_Cons del: UpdateObjectCBs_loop.simps(2))

lemma loop_written:
  assumes "distinct (map ObjCBIndex es)" and "e \<in> set es" and "NumFramesDirty e > 0"
  shows "snd (UpdateObjectCBs_loop dx es cb) (ObjCBIndex e) = Some (constants_of dx e)"
  using assms
proof (induction es arbitrary: cb)
  case Nil
  then show ?case by simp
next
  case (Cons a es)
  show ?case
  proof (cases "e = a")
    case True
    with Cons.prems have "ObjCBIndex a \<notin> ObjCBIndex ` set es" by auto
    then have "snd (UpdateObjectCBs_loop dx es cb') (ObjCBIndex a) = cb' (ObjCBIndex a)" for cb'
      by (rule loop_untouched)
    with True Cons.prems show ?thesis
      by (simp add: loop_Cons del: UpdateObjectCBs_loop.simps(2))
  next
    case False
    with Cons.prems have "e \<in> set es" and "distinct (map ObjCBIndex es)" by auto
    with Cons.IH Cons.prems(3)
    have "snd (UpdateObjectCBs_loop dx es cb') (ObjCBIndex e) = Some (constants_of dx e)" for cb'
      by blast
    then show ?thesis
      by (simp add: loop_Cons del: UpdateObjectCBs_loop.simps(2))
  qed
qed

lemma CycleFrameResource_index:
  "mCurrFrameResourceIndex (CycleFrameResource s) = (mCurrFrameResourceIndex s + 1) mod 3"
proof -
  have "(int (mCurrFrameResourceIndex s) + 1) mod 3 = int ((mCurrFrameResourceIndex s + 1) mod 3)"
    by (simp add: zmod_int add.commute)
  then show ?thesis
    by (simp add: CycleFrameResource_def gNumFrameResources_def)
qed

lemma frame_eq:
  "mAllRitems (frame dx s) = map frame_item (mAllRitems s)"
  "mCurrFrameResourceIndex (frame dx s) = (mCurrFrameResourceIndex s + 1) mod 3"
  "length (mFrameResources (frame dx s)) = length (mFrameResources s)"
  "g \<noteq> (mCurrFrameResourceIndex s + 1) mod 3 \<Longrightarrow>
     mFrameResources (frame dx s) ! g = mFrameResources s ! g"
proof -
  have c: "mAllRitems (CycleFrameResource s) = mAllRitems s"
    "mFrameResources (CycleFrameResource s) = mFrameResources s"
    by (simp_all add: CycleFrameResource_def)
  show "mAllRitems (frame dx s) = map frame_item (mAllRitems s)"
    using loop_items [of dx "mAllRitems s"]
    by (simp add: frame_def UpdateObjectCBs_def Let_def c case_prod_beta)
  show "mCurrFrameResourceIndex (frame dx s) = (mCurrFrameResourceIndex s + 1) mod 3"
    by (simp add: frame_def UpdateObjectCBs_def Let_def CycleFrameResource_index case_prod_beta)
  show "length (mFrameResources (frame dx s)) = length (mFrameResources s)"
    by (simp add: frame_def UpdateObjectCBs_def Let_def c case_prod_beta)
  show "g \<noteq> (mCurrFrameResourceIndex s + 1) mod 3 \<Longrightarrow>
     mFrameResources (frame dx s) ! g = mFrameResources s ! g"
    by (simp add: frame_def UpdateObjectCBs_def Let_def c CycleFrameResource_index case_prod_beta)
qed

lemma frame_written:
  assumes "distinct (map ObjCBIndex (mAllRitems s))" and "i < length (mAllRitems s)"
    and "NumFramesDirty (mAllRitems s ! i) > 0" and "length (mFrameResources s) = 3"
  shows "ObjectCB (mFrameResources (frame dx s) ! ((mCurrFrameResourceIndex s + 1) mod 3))
           (ObjCBIndex (mAllRitems s ! i)) = Some (constants_of dx (mAllRitems s ! i))"
proof -
  let ?f = "(mCurrFrameResourceIndex s + 1) mod 3"
  have c: "mAllRitems (CycleFrameResource s) = mAllRitems s"
    "mFrameResources (CycleFrameResource s) = mFrameResources s"
    by (simp_all add: CycleFrameResource_def)
  have lt: "?f < length (mFrameResources s)"
    using assms(4) by simp
  have "snd (UpdateObjectCBs_loop dx (mAllRitems s) cb) (ObjCBIndex (mAllRitems s ! i))
          = Some (constants_of dx (mAllRitems s ! i))" for cb
    using assms(1-3) by (intro loop_written) simp_all
  then show ?thesis
    using lt
    by (simp add: frame_def UpdateObjectCBs_def Let_def c CycleFrameResource_index case_prod_beta)
qed


lemma length_set_items:
  "length (set_World r m items) = length items"
  "length (set_NumFramesDirty r n items) = length items"
  by (simp_all add: set_World_def set_NumFramesDirty_def)

lemma NumFramesDirty_set_NumFramesDirty:
  "j < length items \<Longrightarrow>
     NumFramesDirty (set_NumFramesDirty r n items ! j)
       = (if j = r then n else NumFramesDirty (items ! j))"
  by (simp add: set_NumFramesDirty_def nth_list_update)

lemma UpdateSkullWorldMatrix_items:
  "mAllRitems (UpdateSkullWorldMatrix dx pos a b c s) =
     set_NumFramesDirty c gNumFrameResources
       (set_NumFramesDirty b gNumFrameResources
          (set_NumFramesDirty a gNumFrameResources
             (set_World c (XMMatrixMultiply dx (XMMatrixMultiply dx
                  (XMMatrixMultiply dx (XMMatrixMultiply dx (XMMatrixRotationY dx (0.5 * MathHelper_Pi))
                     (XMMatrixScaling dx 0.45 0.45 0.45)) (XMMatrixTranslation dx (x pos) (y pos) (z pos)))
                  (XMMatrixShadow dx (XMVectorSet 0 1 0 0)
                     (XMVectorNegate (XMLoadFloat3 (Direction (Lights (mMainPassCB s) 0))))))
                  (XMMatrixTranslation dx 0 0.001 0))
                (set_World b (XMMatrixMultiply dx
                    (XMMatrixMultiply dx (XMMatrixMultiply dx (XMMatrixRotationY dx (0.5 * MathHelper_Pi))
                       (XMMatrixScaling dx 0.45 0.45 0.45)) (XMMatrixTranslation dx (x pos) (y pos) (z pos)))
                    (XMMatrixReflect dx (XMVectorSet 0 0 1 0)))
                   (set_World a
                      (XMMatrixMultiply dx (XMMatrixMultiply dx (XMMatrixRotationY dx (0.5 * MathHelper_Pi))
                         (XMMatrixScaling dx 0.45 0.45 0.45)) (XMMatrixTranslation dx (x pos) (y pos) (z pos)))
                      (mAllRitems s))))))"
  by (simp add: UpdateSkullWorldMatrix_def Let_def)

lemma UpdateSkullWorldMatrix_dirty:
  assumes "a < length (mAllRitems s)" and "b < length (mAllRitems s)" and "c < length (mAllRitems s)"
  shows "NumFramesDirty (mAllRitems (UpdateSkullWorldMatrix dx pos a b c s) ! a) = gNumFrameResources"
    and "NumFramesDirty (mAllRitems (UpdateSkullWorldMatrix dx pos a b c s) ! b) = gNumFrameResources"
    and "NumFramesDirty (mAllRitems (UpdateSkullWorldMatrix dx pos a b c s) ! c) = gNumFrameResources"
  using assms
  by (simp_all add: UpdateSkullWorldMatrix_items NumFramesDirty_set_NumFramesDirty length_set_items)

lemma ring_of_three:
  fixes f g :: nat
  assumes "g < 3"
  shows "g = (f + 1) mod 3 \<or> g = ((f + 1) mod 3 + 1) mod 3 \<or> g = (((f + 1) mod 3 + 1) mod 3 + 1) mod 3"
    and "(f + 1) mod 3 \<noteq> ((f + 1) mod 3 + 1) mod 3"
    and "((f + 1) mod 3 + 1) mod 3 \<noteq> (((f + 1) mod 3 + 1) mod 3 + 1) mod 3"
    and "(f + 1) mod 3 \<noteq> (((f + 1) mod 3 + 1) mod 3 + 1) mod 3"
proof -
  define r where "r = (f + 1) mod 3"
  have "r < 3" by (simp add: r_def)
  then consider "r = 0" | "r = 1" | "r = 2" by linarith
  then have "(g = r \<or> g = (r + 1) mod 3 \<or> g = ((r + 1) mod 3 + 1) mod 3)
      \<and> r \<noteq> (r + 1) mod 3 \<and> (r + 1) mod 3 \<noteq> ((r + 1) mod 3 + 1) mod 3
      \<and> r \<noteq> ((r + 1) mod 3 + 1) mod 3"
    using assms by cases auto
  then show "g = (f + 1) mod 3 \<or> g = ((f + 1) mod 3 + 1) mod 3 \<or> g = (((f + 1) mod 3 + 1) mod 3 + 1) mod 3"
    and "(f + 1) mod 3 \<noteq> ((f + 1) mod 3 + 1) mod 3"
    and "((f + 1) mod 3 + 1) mod 3 \<noteq> (((f + 1) mod 3 + 1) mod 3 + 1) mod 3"
    and "(f + 1) mod 3 \<noteq> (((f + 1) mod 3 + 1) mod 3 + 1) mod 3"
    unfolding r_def by blast+
qed

lemma three_frames:
  assumes i: "i < length (mAllRitems s)"
    and d: "distinct (map ObjCBIndex (mAllRitems s))"
    and l: "length (mFrameResources s) = 3"
    and n: "NumFramesDirty (mAllRitems s ! i) = 3"
    and g: "g < 3"
  shows "ObjectCB (mFrameResources (frame dx (frame dx (frame dx s))) ! g)
           (ObjCBIndex (mAllRitems s ! i)) = Some (constants_of dx (mAllRitems s ! i))"
proof -
  let ?e = "mAllRitems s ! i"
  let ?s1 = "frame dx s" and ?s2 = "frame dx (frame dx s)" and ?s3 = "frame dx (frame dx (frame dx s))"
  let ?f1 = "(mCurrFrameResourceIndex s + 1) mod 3"
  let ?f2 = "(?f1 + 1) mod 3"
  let ?f3 = "(?f2 + 1) mod 3"
  have e1: "mAllRitems ?s1 ! i = frame_item ?e" and e2: "mAllRitems ?s2 ! i = frame_item (frame_item ?e)"
    using i by (simp_all add: frame_eq)
  have d1: "distinct (map ObjCBIndex (mAllRitems ?s1))" and d2: "distinct (map ObjCBIndex (mAllRitems ?s2))"
    using d by (simp_all add: frame_eq frame_item_simps comp_def)
  have i1: "i < length (mAllRitems ?s1)" and i2: "i < length (mAllRitems ?s2)"
    using i by (simp_all add: frame_eq)
  have l1: "length (mFrameResources ?s1) = 3" and l2: "length (mFrameResources ?s2) = 3"
    using l by (simp_all add: frame_eq)
  have n1: "NumFramesDirty (mAllRitems ?s1 ! i) > 0" and n2: "NumFramesDirty (mAllRitems ?s2 ! i) > 0"
    using n by (simp_all add: e1 e2 frame_item_simps)
  have w1: "ObjectCB (mFrameResources ?s1 ! ?f1) (ObjCBIndex ?e) = Some (constants_of dx ?e)"
    using frame_written [OF d i _ l, of dx] n by simp
  have w2: "ObjectCB (mFrameResources ?s2 ! ?f2) (ObjCBIndex ?e) = Some (constants_of dx ?e)"
    using frame_written [OF d1 i1 n1 l1, of dx] i by (simp add: frame_item_simps frame_eq)
  have w3: "ObjectCB (mFrameResources ?s3 ! ?f3) (ObjCBIndex ?e) = Some (constants_of dx ?e)"
    using frame_written [OF d2 i2 n2 l2, of dx] i by (simp add: frame_item_simps frame_eq)
  have k2: "h \<noteq> ?f2 \<Longrightarrow> mFrameResources ?s2 ! h = mFrameResources ?s1 ! h" for h
    using frame_eq(4) [of h ?s1 dx] by (simp add: frame_eq)
  have k3: "h \<noteq> ?f3 \<Longrightarrow> mFrameResources ?s3 ! h = mFrameResources ?s2 ! h" for h
    using frame_eq(4) [of h ?s2 dx] by (simp add: frame_eq)
  note r = ring_of_three [OF g, of "mCurrFrameResourceIndex s"]
  from r(1) consider "g = ?f3" | "g = ?f2" | "g = ?f1" by blast
  then show ?thesis
  proof cases
    case 1
    with w3 show ?thesis by simp
  next
    case 2
    with w2 k3 [of g] r(3) show ?thesis by simp
  next
    case 3
    with w1 k2 [of g] k3 [of g] r(2,4) show ?thesis by simp
  qed
qed

lemma funpow_3: "(f ^^ 3) v = f (f (f v))"
  by (simp add: numeral_3_eq_3)

text \<open>
  Claim C8. For every render item of a scene whose items have distinct constant-buffer
  indices, with three frame resources: \<open>UpdateSkullWorldMatrix\<close>, which mutates the
  world transforms of three items, resets the dirty counter of each of them to 3; a frame
  finds the counter of an item positive, then writes the constants of the item into the
  slot of the item in the frame resource it consumes and decrements the counter by exactly
  one, or finds it not positive and leaves the item alone; hence after three consecutive
  frames without other mutation a counter that was between 0 and 3 is 0 and the item still
  has the same constants, and when the counter was 3 the slot of the item holds those
  constants in each of the three frame resources.
\<close>

theorem C8_dirty_counter:
  assumes "i < length (mAllRitems s)"
    and "distinct (map ObjCBIndex (mAllRitems s))"
    and "length (mFrameResources s) = nat gNumFrameResources"
  shows "(a < length (mAllRitems s) \<and> b < length (mAllRitems s) \<and> c < length (mAllRitems s) \<longrightarrow>
            NumFramesDirty (mAllRitems (UpdateSkullWorldMatrix dx pos a b c s) ! a) = gNumFrameResources
            \<and> NumFramesDirty (mAllRitems (UpdateSkullWorldMatrix dx pos a b c s) ! b) = gNumFrameResources
            \<and> NumFramesDirty (mAllRitems (UpdateSkullWorldMatrix dx pos a b c s) ! c) = gNumFrameResources)
         \<and> (0 < NumFramesDirty (mAllRitems s ! i) \<longrightarrow>
              NumFramesDirty (mAllRitems (frame dx s) ! i) = NumFramesDirty (mAllRitems s ! i) - 1
              \<and> ObjectCB (mFrameResources (frame dx s) ! mCurrFrameResourceIndex (frame dx s))
                   (ObjCBIndex (mAllRitems s ! i)) = Some (constants_of dx (mAllRitems s ! i)))
         \<and> (NumFramesDirty (mAllRitems s ! i) \<le> 0 \<longrightarrow>
              mAllRitems (frame dx s) ! i = mAllRitems s ! i)
         \<and> (0 \<le> NumFramesDirty (mAllRitems s ! i)
              \<and> NumFramesDirty (mAllRitems s ! i) \<le> gNumFrameResources \<longrightarrow>
              NumFramesDirty (mAllRitems ((frame dx ^^ 3) s) ! i) = 0
              \<and> constants_of dx (mAllRitems ((frame dx ^^ 3) s) ! i) = constants_of dx (mAllRitems s ! i))
         \<and> (NumFramesDirty (mAllRitems s ! i) = gNumFrameResources \<longrightarrow>
              ObjectCB (mFrameResources ((frame dx ^^ 3) s) ! 0) (ObjCBIndex (mAllRitems s ! i))
                = Some (constants_of dx (mAllRitems s ! i))
              \<and> ObjectCB (mFrameResources ((frame dx ^^ 3) s) ! 1) (ObjCBIndex (mAllRitems s ! i))
                = Some (constants_of dx (mAllRitems s ! i))
              \<and> ObjectCB (mFrameResources ((frame dx ^^ 3) s) ! 2) (ObjCBIndex (mAllRitems s ! i))
                = Some (constants_of dx (mAllRitems s ! i)))"
proof -
  let ?e = "mAllRitems s ! i"
  have l: "length (mFrameResources s) = 3"
    using assms(3) by (simp add: gNumFrameResources_def)
  have A: "a < length (mAllRitems s) \<and> b < length (mAllRitems s) \<and> c < length (mAllRitems s) \<longrightarrow>
            NumFramesDirty (mAllRitems (UpdateSkullWorldMatrix dx pos a b c s) ! a) = gNumFrameResources
            \<and> NumFramesDirty (mAllRitems (UpdateSkullWorldMatrix dx pos a b c s) ! b) = gNumFrameResources
            \<and> NumFramesDirty (mAllRitems (UpdateSkullWorldMatrix dx pos a b c s) ! c) = gNumFrameResources"
    using UpdateSkullWorldMatrix_dirty [of a s b c dx pos] by blast
  have B: "0 < NumFramesDirty ?e \<longrightarrow>
              NumFramesDirty (mAllRitems (frame dx s) ! i) = NumFramesDirty ?e - 1
              \<and> ObjectCB (mFrameResources (frame dx s) ! mCurrFrameResourceIndex (frame dx s))
                   (ObjCBIndex ?e) = Some (constants_of dx ?e)"
    using frame_written [OF assms(2) assms(1) _ l, of dx] assms(1)
    by (simp add: frame_eq frame_item_simps)
  have C: "NumFramesDirty ?e \<le> 0 \<longrightarrow> mAllRitems (frame dx s) ! i = ?e"
    using assms(1) by (simp add: frame_eq frame_item_def)
  have D: "0 \<le> NumFramesDirty ?e \<and> NumFramesDirty ?e \<le> gNumFrameResources \<longrightarrow>
              NumFramesDirty (mAllRitems ((frame dx ^^ 3) s) ! i) = 0
              \<and> constants_of dx (mAllRitems ((frame dx ^^ 3) s) ! i) = constants_of dx ?e"
    using assms(1) by (simp add: funpow_3 frame_eq frame_item_simps gNumFrameResources_def)
  have E: "NumFramesDirty ?e = gNumFrameResources \<longrightarrow>
              ObjectCB (mFrameResources ((frame dx ^^ 3) s) ! 0) (ObjCBIndex ?e) = Some (constants_of dx ?e)
              \<and> ObjectCB (mFrameResources ((frame dx ^^ 3) s) ! 1) (ObjCBIndex ?e) = Some (constants_of dx ?e)
              \<and> ObjectCB (mFrameResources ((frame dx ^^ 3) s) ! 2) (ObjCBIndex ?e) = Some (constants_of dx ?e)"
    using three_frames [OF assms(1,2) l, of 0 dx] three_frames [OF assms(1,2) l, of 1 dx]
      three_frames [OF assms(1,2) l, of 2 dx]
    by (simp add: funpow_3 gNumFrameResources_def)
  from A B C D E show ?thesis by blast
qed


lemma BuildRenderItems_facts:
  "length (BuildRenderItems dx) = 13"
  "map ObjCBIndex (BuildRenderItems dx) = [0, 1, 2, 3, 4, 5, 6, 7, 8, 9, 10, 11, 12]"
  "BuildRenderItems dx ! 1 = new_RenderItem Identity4x4 1"
  by (simp_all add: BuildRenderItems_def Let_def new_RenderItem_def)

theorem C8_witness:
  "1 < length (mAllRitems (built_app dx_sample 1 ''bob''))
   \<and> distinct (map ObjCBIndex (mAllRitems (built_app dx_sample 1 ''bob'')))
   \<and> length (mFrameResources (built_app dx_sample 1 ''bob'')) = nat gNumFrameResources
   \<and> NumFramesDirty (mAllRitems (built_app dx_sample 1 ''bob'') ! 1) = 3
   \<and> NumFramesDirty (mAllRitems (frame dx_sample (built_app dx_sample 1 ''bob'')) ! 1) = 2
   \<and> NumFramesDirty (mAllRitems ((frame dx_sample ^^ 3) (built_app dx_sample 1 ''bob'')) ! 1) = 0
   \<and> ObjectCB (mFrameResources ((frame dx_sample ^^ 3) (built_app dx_sample 1 ''bob'')) ! 0) 1
       = Some (constants_of dx_sample (new_RenderItem Identity4x4 1))
   \<and> ObjectCB (mFrameResources ((frame dx_sample ^^ 3) (built_app dx_sample 1 ''bob'')) ! 1) 1
       = Some (constants_of dx_sample (new_RenderItem Identity4x4 1))
   \<and> ObjectCB (mFrameResources ((frame dx_sample ^^ 3) (built_app dx_sample 1 ''bob'')) ! 2) 1
       = Some (constants_of dx_sample (new_RenderItem Identity4x4 1))
   \<and> NumFramesDirty (mAllRitems (UpdateSkullWorldMatrix dx_sample \<lparr>x = 0, y = 1, z = - 10\<rparr> 1 2 3
         ((frame dx_sample ^^ 3) (built_app dx_sample 1 ''bob''))) ! 1) = 3"
proof -
  let ?s = "built_app dx_sample 1 ''bob''"
  let ?t = "(frame dx_sample ^^ 3) ?s"
  have items: "mAllRitems ?s = BuildRenderItems dx_sample"
    and frames: "length (mFrameResources ?s) = nat gNumFrameResources"
    by (simp_all add: built_app_def)
  have h1: "1 < length (mAllRitems ?s)"
    and h2: "distinct (map ObjCBIndex (mAllRitems ?s))"
    by (simp_all add: items BuildRenderItems_facts)
  have e: "mAllRitems ?s ! 1 = new_RenderItem Identity4x4 1"
    by (simp only: items BuildRenderItems_facts(3))
  have n: "NumFramesDirty (new_RenderItem Identity4x4 1) = 3" "ObjCBIndex (new_RenderItem Identity4x4 1) = 1"
    by (simp_all add: new_RenderItem_def gNumFrameResources_def)
  have lt: "length (mAllRitems ?t) = 13"
    by (simp add: funpow_3 frame_eq items BuildRenderItems_facts)
  have h1': "1 < length (mAllRitems ?t)" and h2': "distinct (map ObjCBIndex (mAllRitems ?t))"
    and h3': "length (mFrameResources ?t) = nat gNumFrameResources"
    using h1 h2 frames
    by (simp_all add: funpow_3 frame_eq frame_item_simps comp_def)
  note t = C8_dirty_counter [OF h1 h2 frames, of 1 2 3 dx_sample "\<lparr>x = 0, y = 1, z = - 10\<rparr>"]
  note u = C8_dirty_counter [OF h1' h2' h3', of 1 2 3 dx_sample "\<lparr>x = 0, y = 1, z = - 10\<rparr>"]
  have c4: "NumFramesDirty (mAllRitems ?s ! 1) = 3"
    by (simp only: e n)
  have c5: "NumFramesDirty (mAllRitems (frame dx_sample ?s) ! 1) = 2"
    using t e n by (simp add: gNumFrameResources_def)
  have c6: "NumFramesDirty (mAllRitems ?t ! 1) = 0"
    using t e n by (simp add: gNumFrameResources_def)
  have c7: "ObjectCB (mFrameResources ?t ! 0) 1 = Some (constants_of dx_sample (new_RenderItem Identity4x4 1))"
    and c8: "ObjectCB (mFrameResources ?t ! 1) 1 = Some (constants_of dx_sample (new_RenderItem Identity4x4 1))"
    and c9: "ObjectCB (mFrameResources ?t ! 2) 1 = Some (constants_of dx_sample (new_RenderItem Identity4x4 1))"
    using t e n by (simp_all add: gNumFrameResources_def)
  have c10: "NumFramesDirty (mAllRitems (UpdateSkullWorldMatrix dx_sample \<lparr>x = 0, y = 1, z = - 10\<rparr> 1 2 3 ?t) ! 1) = 3"
    using u lt by (simp add: gNumFrameResources_def)
  show ?thesis
    by (intro conjI h1 h2 frames c4 c5 c6 c7 c8 c9 c10)
qed

end
